theory Spec2Isabelle
  imports Complex_Main "HOL-Library.Monad_Syntax"
begin

section \<open>Python values used by the program\<close>

text \<open>
  Python \<open>str\<close> is modelled as \<open>string\<close>. The string methods the program calls are
  modelled on ASCII text: \<open>upper\<close> and \<open>lower\<close> change the letters a-z and A-Z only,
  and \<open>strip\<close> removes the ASCII characters for which \<open>str.isspace\<close> holds (codes 9 to 13,
  28 to 32). Characters outside ASCII are left as they are.

  A Python \<open>float\<close> that the program computes or receives as a finite number is modelled
  by the real number it denotes (the one float read from the environment is a \<open>pyfloat\<close>,
  below), a Python \<open>int\<close> by \<open>int\<close>.
  Comparisons between a float and an int are exact in Python, so they are comparisons of
  reals here; \<open>//\<close> on ints is floor division, which is \<open>div\<close> on \<open>int\<close>.
\<close>

definition isspace :: "char \<Rightarrow> bool" where
  "isspace c = (let n = (of_char c :: nat) in (9 \<le> n \<and> n \<le> 13) \<or> (28 \<le> n \<and> n \<le> 32))"

definition lstrip :: "string \<Rightarrow> string" where
  "lstrip s = dropWhile isspace s"

definition rstrip :: "string \<Rightarrow> string" where
  "rstrip s = rev (dropWhile isspace (rev s))"

definition strip :: "string \<Rightarrow> string" where
  "strip s = rstrip (lstrip s)"

definition upper_char :: "char \<Rightarrow> char" where
  "upper_char c = (let n = (of_char c :: nat) in
     if 97 \<le> n \<and> n \<le> 122 then char_of (n - 32) else c)"

definition lower_char :: "char \<Rightarrow> char" where
  "lower_char c = (let n = (of_char c :: nat) in
     if 65 \<le> n \<and> n \<le> 90 then char_of (n + 32) else c)"

definition upper :: "string \<Rightarrow> string" where
  "upper s = map upper_char s"

definition lower :: "string \<Rightarrow> string" where
  "lower s = map lower_char s"

definition endswith :: "string \<Rightarrow> string \<Rightarrow> bool" where
  "endswith s suffix = (length suffix \<le> length s \<and> drop (length s - length suffix) s = suffix)"

definition startswith :: "string \<Rightarrow> string \<Rightarrow> bool" where
  "startswith s prefix = (take (length prefix) s = prefix)"

text \<open>\<open>squote s\<close> is \<open>s\<close> between two apostrophes, as the messages of the program quote
  names and values.\<close>

definition squote :: "string \<Rightarrow> string" where
  "squote s = CHR 0x27 # s @ [CHR 0x27]"

fun join :: "string \<Rightarrow> string list \<Rightarrow> string" where
  "join sep [] = []"
| "join sep [x] = x"
| "join sep (x # y # ys) = x @ sep @ join sep (y # ys)"


definition rstrip_slash :: "string \<Rightarrow> string" where
  \<comment> \<open>\<open>s.rstrip("/")\<close>\<close>
  "rstrip_slash s = rev (dropWhile (\<lambda>c. c = CHR ''/'') (rev s))"

text \<open>\<open>str(n)\<close> for an int, as the f-strings of the program print numbers.\<close>

fun str_nat :: "nat \<Rightarrow> string" where
  "str_nat n = (if n < 10 then [char_of (48 + n)]
                else str_nat (n div 10) @ [char_of (48 + n mod 10)])"

declare str_nat.simps [simp del]

definition str_int :: "int \<Rightarrow> string" where
  "str_int i = (if i < 0 then CHR ''-'' # str_nat (nat (- i)) else str_nat (nat i))"


section \<open>Paths: the library functions used by tes/models.py\<close>

text \<open>
  \<open>TesInput\<close> and \<open>TesOutput\<close> serialize their \<open>path\<close> with \<open>str(Path(v).absolute())\<close>, and
  \<open>TesOutput\<close> validates it with \<open>os.path.normpath\<close> and \<open>Path(...).parts\<close>. These are
  functions of the Python standard library on POSIX paths; they are written out here as
  \<open>posixpath.normpath\<close> and \<open>pathlib.PurePosixPath\<close> compute them. The current working
  directory, which \<open>Path.absolute\<close> reads from the process, is the argument \<open>cwd\<close>.
\<close>

fun split_slash :: "string \<Rightarrow> string list" where
  \<comment> \<open>\<open>s.split("/")\<close>\<close>
  "split_slash [] = [[]]"
| "split_slash (c # cs) =
     (if c = CHR ''/'' then [] # split_slash cs
      else (case split_slash cs of [] \<Rightarrow> [[c]] | x # xs \<Rightarrow> (c # x) # xs))"

definition path_root :: "string \<Rightarrow> string" where
  \<comment> \<open>the root of a POSIX path: exactly two leading slashes are kept, any other number is one\<close>
  "path_root p = (if startswith p ''//'' \<and> \<not> startswith p ''///'' then ''//''
                  else if startswith p ''/'' then ''/'' else [])"

definition path_tail :: "string \<Rightarrow> string list" where
  \<comment> \<open>the components after the root: empty components and \<open>.\<close> are dropped\<close>
  "path_tail p = filter (\<lambda>x. x \<noteq> [] \<and> x \<noteq> ''.'') (split_slash p)"

definition path_parts :: "string \<Rightarrow> string list" where
  \<comment> \<open>\<open>Path(p).parts\<close>\<close>
  "path_parts p = (if path_root p = [] then path_tail p else path_root p # path_tail p)"

definition path_str :: "string \<Rightarrow> string list \<Rightarrow> string" where
  \<comment> \<open>\<open>str\<close> of a path with the given root and components\<close>
  "path_str rt tail = (let s = rt @ join ''/'' tail in if s = [] then ''.'' else s)"

definition Path_absolute :: "string \<Rightarrow> string \<Rightarrow> string" where
  \<comment> \<open>\<open>str(Path(p).absolute())\<close> in the working directory \<open>cwd\<close>\<close>
  "Path_absolute cwd p =
     (if path_root p \<noteq> [] then path_str (path_root p) (path_tail p)
      else path_str (path_root cwd) (path_tail cwd @ path_tail p))"

definition normpath_step :: "nat \<Rightarrow> string list \<Rightarrow> string \<Rightarrow> string list" where
  \<comment> \<open>one round of the loop of \<open>posixpath.normpath\<close> over the components\<close>
  "normpath_step initial_slashes new_comps cmpn =
     (if cmpn = [] \<or> cmpn = ''.'' then new_comps
      else if cmpn \<noteq> ''..'' \<or> (initial_slashes = 0 \<and> new_comps = [])
               \<or> (new_comps \<noteq> [] \<and> last new_comps = ''..'')
        then new_comps @ [cmpn]
      else if new_comps \<noteq> [] then butlast new_comps
      else new_comps)"

definition normpath :: "string \<Rightarrow> string" where
  \<comment> \<open>\<open>os.path.normpath(path)\<close>\<close>
  "normpath path =
     (if path = [] then ''.''
      else let initial_slashes =
                 (if startswith path ''/'' then
                    (if startswith path ''//'' \<and> \<not> startswith path ''///'' then 2 else 1)
                  else 0);
               comps = foldl (normpath_step initial_slashes) [] (split_slash path);
               p = replicate initial_slashes CHR ''/'' @ join ''/'' comps
           in if p = [] then ''.'' else p)"

text \<open>A component as \<open>normpath\<close> leaves it in an absolute path: not empty, neither
  \<open>.\<close> nor \<open>..\<close>, and without a slash.\<close>

definition good_component :: "string \<Rightarrow> bool" where
  "good_component c = (c \<noteq> [] \<and> c \<noteq> ''.'' \<and> c \<noteq> ''..'' \<and> CHR ''/'' \<notin> set c)"


section \<open>tes/models.py: the enumerations\<close>

datatype TesState =
    UNKNOWN | QUEUED | INITIALIZING | RUNNING | PAUSED | COMPLETE
  | EXECUTOR_ERROR | SYSTEM_ERROR | CANCELED | PREEMPTED | CANCELING

fun TesState_value :: "TesState \<Rightarrow> string" where
  "TesState_value UNKNOWN = ''UNKNOWN''"
| "TesState_value QUEUED = ''QUEUED''"
| "TesState_value INITIALIZING = ''INITIALIZING''"
| "TesState_value RUNNING = ''RUNNING''"
| "TesState_value PAUSED = ''PAUSED''"
| "TesState_value COMPLETE = ''COMPLETE''"
| "TesState_value EXECUTOR_ERROR = ''EXECUTOR_ERROR''"
| "TesState_value SYSTEM_ERROR = ''SYSTEM_ERROR''"
| "TesState_value CANCELED = ''CANCELED''"
| "TesState_value PREEMPTED = ''PREEMPTED''"
| "TesState_value CANCELING = ''CANCELING''"

datatype TesView = BASIC | FULL | MINIMAL

fun TesView_value :: "TesView \<Rightarrow> string" where
  "TesView_value BASIC = ''BASIC''"
| "TesView_value FULL = ''FULL''"
| "TesView_value MINIMAL = ''MINIMAL''"


section \<open>tes/models.py: the data model\<close>

text \<open>
  The values that travel between the program and the service: what \<open>response.json()\<close>
  returns and what \<open>model_dump\<close> produces. A Python \<open>dict\<close> is an association list;
  \<open>map_of\<close> reads a key.
\<close>

datatype pyval =
    PNone | PBool bool | PInt int | PFloat real | PStr string
  | PList "pyval list" | PDict "(string \<times> pyval) list"

text \<open>
  Each pydantic class is a record. The fields have the names of the class with a prefix
  for the class (\<open>exec_\<close>, \<open>elog_\<close>, \<open>inp_\<close>, \<open>outp_\<close>, \<open>oflog_\<close>, \<open>res_\<close>, \<open>tlog_\<close>,
  \<open>tt_\<close> for \<open>TesTask\<close>, \<open>min_\<close> for \<open>MinimalTesTask\<close>), since several classes have
  fields of the same name; \<open>created_id\<close> is the \<open>id\<close> of \<open>TesCreateTaskResponse\<close>. A field
  \<open>X | None\<close> is an \<open>option\<close>, a \<open>dict[str, str]\<close> an association list.
\<close>

datatype TesFileType = FILE | DIRECTORY

fun TesFileType_value :: "TesFileType \<Rightarrow> string" where
  "TesFileType_value FILE = ''FILE''"
| "TesFileType_value DIRECTORY = ''DIRECTORY''"

record TesCreateTaskResponse =
  created_id :: string

record TesExecutor =
  exec_image :: string
  exec_command :: "string list"
  exec_workdir :: "string option"
  exec_stdin :: "string option"
  exec_stdout :: "string option"
  exec_stderr :: "string option"
  exec_env :: "(string \<times> string) list option"
  exec_ignore_error :: "bool option"

record TesExecutorLog =
  elog_start_time :: "string option"
  elog_end_time :: "string option"
  elog_stdout :: "string option"
  elog_stderr :: "string option"
  elog_exit_code :: int

record TesInput =
  inp_name :: "string option"
  inp_description :: "string option"
  inp_url :: "string option"
  inp_path :: string
  inp_type :: "TesFileType option"
  inp_content :: "string option"
  inp_streamable :: "bool option"

record TesOutput =
  outp_name :: "string option"
  outp_description :: "string option"
  outp_url :: string
  outp_path :: string
  outp_path_prefix :: "string option"
  outp_type :: "TesFileType option"

record TesOutputFileLog =
  oflog_url :: string
  oflog_path :: string
  oflog_size_bytes :: string

record TesResources =
  res_cpu_cores :: "int option"
  res_preemptible :: "bool option"
  res_ram_gb :: "real option"
  res_disk_gb :: "real option"
  res_zones :: "string list option"
  res_backend_parameters :: "(string \<times> string) list option"
  res_backend_parameters_strict :: "bool option"

record TesTaskLog =
  tlog_logs :: "TesExecutorLog list"
  tlog_metadata :: "(string \<times> string) list option"
  tlog_start_time :: "string option"
  tlog_end_time :: "string option"
  tlog_outputs :: "TesOutputFileLog list"
  tlog_system_logs :: "string list option"

record TesTask =
  tt_id :: "string option"
  tt_state :: "TesState option"
  tt_name :: "string option"
  tt_description :: "string option"
  tt_inputs :: "TesInput list option"
  tt_outputs :: "TesOutput list option"
  tt_resources :: "TesResources option"
  tt_executors :: "TesExecutor list"
  tt_volumes :: "string list option"
  tt_tags :: "(string \<times> string) list option"
  tt_logs :: "TesTaskLog list option"
  tt_creation_time :: "string option"

record MinimalTesTask =
  min_id :: string
  min_state :: string

subsection \<open>Validation (\<open>model_validate\<close>)\<close>

text \<open>
  \<open>model_validate\<close> returns the model or raises pydantic's \<open>ValidationError\<close>: the result
  \<open>None\<close> is the raise. Keys that the class does not declare are ignored. A field
  \<open>X | None = d\<close> takes the default \<open>d\<close> when its key is absent and \<open>None\<close> when the value
  is \<open>None\<close>. A \<open>str\<close> field takes a string only. Of pydantic's conversions between the
  other types the model has one, an int for a \<open>float\<close> field; the others (a numeric string
  for a number, a number for a \<open>bool\<close>) are rejected here.
\<close>

definition v_str :: "pyval \<Rightarrow> string option" where
  "v_str v = (case v of PStr s \<Rightarrow> Some s | _ \<Rightarrow> None)"

definition v_bool :: "pyval \<Rightarrow> bool option" where
  "v_bool v = (case v of PBool b \<Rightarrow> Some b | _ \<Rightarrow> None)"

definition v_int :: "pyval \<Rightarrow> int option" where
  "v_int v = (case v of PInt i \<Rightarrow> Some i | _ \<Rightarrow> None)"

definition v_float :: "pyval \<Rightarrow> real option" where
  "v_float v = (case v of PFloat r \<Rightarrow> Some r | PInt i \<Rightarrow> Some (of_int i) | _ \<Rightarrow> None)"

fun v_all :: "('a \<Rightarrow> 'b option) \<Rightarrow> 'a list \<Rightarrow> 'b list option" where
  "v_all f [] = Some []"
| "v_all f (x # xs) =
     (case f x of None \<Rightarrow> None
      | Some y \<Rightarrow> (case v_all f xs of None \<Rightarrow> None | Some ys \<Rightarrow> Some (y # ys)))"

definition v_list :: "(pyval \<Rightarrow> 'a option) \<Rightarrow> pyval \<Rightarrow> 'a list option" where
  "v_list f v = (case v of PList xs \<Rightarrow> v_all f xs | _ \<Rightarrow> None)"

definition v_dict_str :: "pyval \<Rightarrow> (string \<times> string) list option" where
  "v_dict_str v =
     (case v of PDict kvs \<Rightarrow> v_all (\<lambda>(k, x). map_option (Pair k) (v_str x)) kvs
      | _ \<Rightarrow> None)"

definition TesState_of_value :: "string \<Rightarrow> TesState option" where
  "TesState_of_value s =
     find (\<lambda>st. TesState_value st = s)
       [UNKNOWN, QUEUED, INITIALIZING, RUNNING, PAUSED, COMPLETE, EXECUTOR_ERROR,
        SYSTEM_ERROR, CANCELED, PREEMPTED, CANCELING]"

definition v_TesState :: "pyval \<Rightarrow> TesState option" where
  "v_TesState v = (case v of PStr s \<Rightarrow> TesState_of_value s | _ \<Rightarrow> None)"

definition TesFileType_of_value :: "string \<Rightarrow> TesFileType option" where
  "TesFileType_of_value s = find (\<lambda>ft. TesFileType_value ft = s) [FILE, DIRECTORY]"

definition v_TesFileType :: "pyval \<Rightarrow> TesFileType option" where
  "v_TesFileType v = (case v of PStr s \<Rightarrow> TesFileType_of_value s | _ \<Rightarrow> None)"

definition required :: "(string \<times> pyval) list \<Rightarrow> string \<Rightarrow> (pyval \<Rightarrow> 'a option) \<Rightarrow> 'a option" where
  \<comment> \<open>a field without a default\<close>
  "required d k f = (case map_of d k of None \<Rightarrow> None | Some v \<Rightarrow> f v)"

definition optional ::
  "(string \<times> pyval) list \<Rightarrow> string \<Rightarrow> (pyval \<Rightarrow> 'a option) \<Rightarrow> 'a option \<Rightarrow> 'a option option" where
  \<comment> \<open>a field \<open>X | None\<close> with the default \<open>dflt\<close>\<close>
  "optional d k f dflt =
     (case map_of d k of None \<Rightarrow> Some dflt
      | Some PNone \<Rightarrow> Some None
      | Some v \<Rightarrow> map_option Some (f v))"

definition TesCreateTaskResponse_model_validate :: "pyval \<Rightarrow> TesCreateTaskResponse option" where
  "TesCreateTaskResponse_model_validate v =
     (case v of
        PDict d \<Rightarrow> do {
          v_id \<leftarrow> required d ''id'' v_str;
          Some \<lparr>created_id = v_id\<rparr> }
      | _ \<Rightarrow> None)"

definition MinimalTesTask_model_validate :: "pyval \<Rightarrow> MinimalTesTask option" where
  "MinimalTesTask_model_validate v =
     (case v of
        PDict d \<Rightarrow> do {
          v_id \<leftarrow> required d ''id'' v_str;
          v_state \<leftarrow> required d ''state'' v_str;
          Some \<lparr>min_id = v_id, min_state = v_state\<rparr> }
      | _ \<Rightarrow> None)"

definition TesExecutor_model_validate :: "pyval \<Rightarrow> TesExecutor option" where
  "TesExecutor_model_validate v =
     (case v of
        PDict d \<Rightarrow> do {
          v_image \<leftarrow> required d ''image'' v_str;
          v_command \<leftarrow> required d ''command'' (v_list v_str);
          v_workdir \<leftarrow> optional d ''workdir'' v_str None;
          v_stdin \<leftarrow> optional d ''stdin'' v_str None;
          v_stdout \<leftarrow> optional d ''stdout'' v_str None;
          v_stderr \<leftarrow> optional d ''stderr'' v_str None;
          v_env \<leftarrow> optional d ''env'' v_dict_str None;
          v_ignore_error \<leftarrow> optional d ''ignore_error'' v_bool None;
          Some \<lparr>exec_image = v_image, exec_command = v_command, exec_workdir = v_workdir,
                exec_stdin = v_stdin, exec_stdout = v_stdout, exec_stderr = v_stderr,
                exec_env = v_env, exec_ignore_error = v_ignore_error\<rparr> }
      | _ \<Rightarrow> None)"

text \<open>The default of a \<open>start_time\<close> and of \<open>creation_time\<close> is the current time, printed
  with \<open>strftime\<close>: the argument \<open>now_str\<close>.\<close>

definition TesExecutorLog_model_validate :: "string \<Rightarrow> pyval \<Rightarrow> TesExecutorLog option" where
  "TesExecutorLog_model_validate now_str v =
     (case v of
        PDict d \<Rightarrow> do {
          v_start_time \<leftarrow> optional d ''start_time'' v_str (Some now_str);
          v_end_time \<leftarrow> optional d ''end_time'' v_str None;
          v_stdout \<leftarrow> optional d ''stdout'' v_str None;
          v_stderr \<leftarrow> optional d ''stderr'' v_str None;
          v_exit_code \<leftarrow> required d ''exit_code'' v_int;
          Some \<lparr>elog_start_time = v_start_time, elog_end_time = v_end_time,
                elog_stdout = v_stdout, elog_stderr = v_stderr,
                elog_exit_code = v_exit_code\<rparr> }
      | _ \<Rightarrow> None)"

definition TesInput_model_validate :: "pyval \<Rightarrow> TesInput option" where
  "TesInput_model_validate v =
     (case v of
        PDict d \<Rightarrow> do {
          v_name \<leftarrow> optional d ''name'' v_str None;
          v_description \<leftarrow> optional d ''description'' v_str None;
          v_url \<leftarrow> optional d ''url'' v_str None;
          v_path \<leftarrow> required d ''path'' v_str;
          v_type \<leftarrow> optional d ''type'' v_TesFileType (Some FILE);
          v_content \<leftarrow> optional d ''content'' v_str None;
          v_streamable \<leftarrow> optional d ''streamable'' v_bool None;
          Some \<lparr>inp_name = v_name, inp_description = v_description, inp_url = v_url,
                inp_path = v_path, inp_type = v_type, inp_content = v_content,
                inp_streamable = v_streamable\<rparr> }
      | _ \<Rightarrow> None)"

text \<open>\<open>TesOutput.validate_path\<close>; \<open>None\<close> is one of its two \<open>ValueError\<close>s, which pydantic
  reports as a \<open>ValidationError\<close>.\<close>

definition validate_path :: "string \<Rightarrow> string option" where
  "validate_path path =
     (if \<not> startswith path ''/'' then None
      else let normalized_path = normpath path
           in if length (path_parts normalized_path) < 3 then None
              else Some normalized_path)"

definition TesOutput_model_validate :: "pyval \<Rightarrow> TesOutput option" where
  "TesOutput_model_validate v =
     (case v of
        PDict d \<Rightarrow> do {
          v_name \<leftarrow> optional d ''name'' v_str None;
          v_description \<leftarrow> optional d ''description'' v_str None;
          v_url \<leftarrow> required d ''url'' v_str;
          v_path \<leftarrow> required d ''path'' (\<lambda>x. Option.bind (v_str x) validate_path);
          v_path_prefix \<leftarrow> optional d ''path_prefix'' v_str None;
          v_type \<leftarrow> optional d ''type'' v_TesFileType (Some FILE);
          Some \<lparr>outp_name = v_name, outp_description = v_description, outp_url = v_url,
                outp_path = v_path, outp_path_prefix = v_path_prefix, outp_type = v_type\<rparr> }
      | _ \<Rightarrow> None)"

definition TesOutputFileLog_model_validate :: "pyval \<Rightarrow> TesOutputFileLog option" where
  "TesOutputFileLog_model_validate v =
     (case v of
        PDict d \<Rightarrow> do {
          v_url \<leftarrow> required d ''url'' v_str;
          v_path \<leftarrow> required d ''path'' v_str;
          v_size_bytes \<leftarrow> required d ''size_bytes'' v_str;
          Some \<lparr>oflog_url = v_url, oflog_path = v_path, oflog_size_bytes = v_size_bytes\<rparr> }
      | _ \<Rightarrow> None)"

definition TesResources_model_validate :: "pyval \<Rightarrow> TesResources option" where
  "TesResources_model_validate v =
     (case v of
        PDict d \<Rightarrow> do {
          v_cpu_cores \<leftarrow> optional d ''cpu_cores'' v_int None;
          v_preemptible \<leftarrow> optional d ''preemptible'' v_bool None;
          v_ram_gb \<leftarrow> optional d ''ram_gb'' v_float None;
          v_disk_gb \<leftarrow> optional d ''disk_gb'' v_float None;
          v_zones \<leftarrow> optional d ''zones'' (v_list v_str) None;
          v_backend_parameters \<leftarrow> optional d ''backend_parameters'' v_dict_str None;
          v_strict \<leftarrow> optional d ''backend_parameters_strict'' v_bool (Some False);
          Some \<lparr>res_cpu_cores = v_cpu_cores, res_preemptible = v_preemptible,
                res_ram_gb = v_ram_gb, res_disk_gb = v_disk_gb, res_zones = v_zones,
                res_backend_parameters = v_backend_parameters,
                res_backend_parameters_strict = v_strict\<rparr> }
      | _ \<Rightarrow> None)"

definition TesTaskLog_model_validate :: "string \<Rightarrow> pyval \<Rightarrow> TesTaskLog option" where
  "TesTaskLog_model_validate now_str v =
     (case v of
        PDict d \<Rightarrow> do {
          v_logs \<leftarrow> required d ''logs'' (v_list (TesExecutorLog_model_validate now_str));
          v_metadata \<leftarrow> optional d ''metadata'' v_dict_str None;
          v_start_time \<leftarrow> optional d ''start_time'' v_str (Some now_str);
          v_end_time \<leftarrow> optional d ''end_time'' v_str None;
          v_outputs \<leftarrow> required d ''outputs'' (v_list TesOutputFileLog_model_validate);
          v_system_logs \<leftarrow> optional d ''system_logs'' (v_list v_str) None;
          Some \<lparr>tlog_logs = v_logs, tlog_metadata = v_metadata, tlog_start_time = v_start_time,
                tlog_end_time = v_end_time, tlog_outputs = v_outputs,
                tlog_system_logs = v_system_logs\<rparr> }
      | _ \<Rightarrow> None)"

definition TesTask_model_validate :: "string \<Rightarrow> pyval \<Rightarrow> TesTask option" where
  "TesTask_model_validate now_str v =
     (case v of
        PDict d \<Rightarrow> do {
          v_id \<leftarrow> optional d ''id'' v_str None;
          v_state \<leftarrow> optional d ''state'' v_TesState (Some UNKNOWN);
          v_name \<leftarrow> optional d ''name'' v_str None;
          v_description \<leftarrow> optional d ''description'' v_str None;
          v_inputs \<leftarrow> optional d ''inputs'' (v_list TesInput_model_validate) None;
          v_outputs \<leftarrow> optional d ''outputs'' (v_list TesOutput_model_validate) None;
          v_resources \<leftarrow> optional d ''resources'' TesResources_model_validate None;
          v_executors \<leftarrow> required d ''executors'' (v_list TesExecutor_model_validate);
          v_volumes \<leftarrow> optional d ''volumes'' (v_list v_str) None;
          v_tags \<leftarrow> optional d ''tags'' v_dict_str None;
          v_logs \<leftarrow> optional d ''logs'' (v_list (TesTaskLog_model_validate now_str)) None;
          v_creation_time \<leftarrow> optional d ''creation_time'' v_str (Some now_str);
          Some \<lparr>tt_id = v_id, tt_state = v_state, tt_name = v_name,
                tt_description = v_description, tt_inputs = v_inputs,
                tt_outputs = v_outputs, tt_resources = v_resources,
                tt_executors = v_executors, tt_volumes = v_volumes, tt_tags = v_tags,
                tt_logs = v_logs, tt_creation_time = v_creation_time\<rparr> }
      | _ \<Rightarrow> None)"

subsection \<open>Serialization (\<open>model_dump(exclude_none=True)\<close>)\<close>

text \<open>
  The program sends and re-reads tasks through \<open>model_dump(exclude_none=True)\<close>: a field
  whose value is \<open>None\<close> is left out before its serializer runs, the other fields appear in
  the order of the class, and the field serializers of the classes are applied
  (\<open>serialize_path\<close>, \<open>serialize_type\<close>, \<open>serialize_state\<close>).
\<close>

definition dump_opt :: "string \<Rightarrow> 'a option \<Rightarrow> ('a \<Rightarrow> pyval) \<Rightarrow> (string \<times> pyval) list" where
  "dump_opt k v f = (case v of None \<Rightarrow> [] | Some x \<Rightarrow> [(k, f x)])"

definition dump_dict_str :: "(string \<times> string) list \<Rightarrow> pyval" where
  "dump_dict_str kvs = PDict (map (\<lambda>(k, x). (k, PStr x)) kvs)"

definition dump_list_str :: "string list \<Rightarrow> pyval" where
  "dump_list_str xs = PList (map PStr xs)"

definition serialize_path :: "string \<Rightarrow> string \<Rightarrow> string" where
  \<comment> \<open>\<open>str(Path(v).absolute())\<close>\<close>
  "serialize_path cwd v = Path_absolute cwd v"

definition serialize_type :: "TesFileType \<Rightarrow> string" where
  "serialize_type v = TesFileType_value v"

definition serialize_state :: "TesState \<Rightarrow> string" where
  "serialize_state v = TesState_value v"

definition TesExecutor_model_dump :: "TesExecutor \<Rightarrow> pyval" where
  "TesExecutor_model_dump e =
     PDict ([(''image'', PStr (exec_image e)),
             (''command'', dump_list_str (exec_command e))]
            @ dump_opt ''workdir'' (exec_workdir e) PStr
            @ dump_opt ''stdin'' (exec_stdin e) PStr
            @ dump_opt ''stdout'' (exec_stdout e) PStr
            @ dump_opt ''stderr'' (exec_stderr e) PStr
            @ dump_opt ''env'' (exec_env e) dump_dict_str
            @ dump_opt ''ignore_error'' (exec_ignore_error e) PBool)"

definition TesExecutorLog_model_dump :: "TesExecutorLog \<Rightarrow> pyval" where
  "TesExecutorLog_model_dump l =
     PDict (dump_opt ''start_time'' (elog_start_time l) PStr
            @ dump_opt ''end_time'' (elog_end_time l) PStr
            @ dump_opt ''stdout'' (elog_stdout l) PStr
            @ dump_opt ''stderr'' (elog_stderr l) PStr
            @ [(''exit_code'', PInt (elog_exit_code l))])"

definition TesInput_model_dump :: "string \<Rightarrow> TesInput \<Rightarrow> pyval" where
  "TesInput_model_dump cwd i =
     PDict (dump_opt ''name'' (inp_name i) PStr
            @ dump_opt ''description'' (inp_description i) PStr
            @ dump_opt ''url'' (inp_url i) PStr
            @ [(''path'', PStr (serialize_path cwd (inp_path i)))]
            @ dump_opt ''type'' (inp_type i) (\<lambda>t. PStr (serialize_type t))
            @ dump_opt ''content'' (inp_content i) PStr
            @ dump_opt ''streamable'' (inp_streamable i) PBool)"

definition TesOutput_model_dump :: "string \<Rightarrow> TesOutput \<Rightarrow> pyval" where
  "TesOutput_model_dump cwd out =
     PDict (dump_opt ''name'' (outp_name out) PStr
            @ dump_opt ''description'' (outp_description out) PStr
            @ [(''url'', PStr (outp_url out)),
               (''path'', PStr (serialize_path cwd (outp_path out)))]
            @ dump_opt ''path_prefix'' (outp_path_prefix out) PStr
            @ dump_opt ''type'' (outp_type out) (\<lambda>t. PStr (serialize_type t)))"

definition TesOutputFileLog_model_dump :: "TesOutputFileLog \<Rightarrow> pyval" where
  "TesOutputFileLog_model_dump l =
     PDict [(''url'', PStr (oflog_url l)), (''path'', PStr (oflog_path l)),
            (''size_bytes'', PStr (oflog_size_bytes l))]"

definition TesResources_model_dump :: "TesResources \<Rightarrow> pyval" where
  "TesResources_model_dump r =
     PDict (dump_opt ''cpu_cores'' (res_cpu_cores r) PInt
            @ dump_opt ''preemptible'' (res_preemptible r) PBool
            @ dump_opt ''ram_gb'' (res_ram_gb r) PFloat
            @ dump_opt ''disk_gb'' (res_disk_gb r) PFloat
            @ dump_opt ''zones'' (res_zones r) dump_list_str
            @ dump_opt ''backend_parameters'' (res_backend_parameters r) dump_dict_str
            @ dump_opt ''backend_parameters_strict'' (res_backend_parameters_strict r) PBool)"

definition TesTaskLog_model_dump :: "TesTaskLog \<Rightarrow> pyval" where
  "TesTaskLog_model_dump l =
     PDict ([(''logs'', PList (map TesExecutorLog_model_dump (tlog_logs l)))]
            @ dump_opt ''metadata'' (tlog_metadata l) dump_dict_str
            @ dump_opt ''start_time'' (tlog_start_time l) PStr
            @ dump_opt ''end_time'' (tlog_end_time l) PStr
            @ [(''outputs'', PList (map TesOutputFileLog_model_dump (tlog_outputs l)))]
            @ dump_opt ''system_logs'' (tlog_system_logs l) dump_list_str)"

definition TesTask_model_dump :: "string \<Rightarrow> TesTask \<Rightarrow> pyval" where
  "TesTask_model_dump cwd t =
     PDict (dump_opt ''id'' (tt_id t) PStr
            @ dump_opt ''state'' (tt_state t) (\<lambda>s. PStr (serialize_state s))
            @ dump_opt ''name'' (tt_name t) PStr
            @ dump_opt ''description'' (tt_description t) PStr
            @ dump_opt ''inputs'' (tt_inputs t) (\<lambda>xs. PList (map (TesInput_model_dump cwd) xs))
            @ dump_opt ''outputs'' (tt_outputs t) (\<lambda>xs. PList (map (TesOutput_model_dump cwd) xs))
            @ dump_opt ''resources'' (tt_resources t) TesResources_model_dump
            @ [(''executors'', PList (map TesExecutor_model_dump (tt_executors t)))]
            @ dump_opt ''volumes'' (tt_volumes t) dump_list_str
            @ dump_opt ''tags'' (tt_tags t) dump_dict_str
            @ dump_opt ''logs'' (tt_logs t) (\<lambda>xs. PList (map TesTaskLog_model_dump xs))
            @ dump_opt ''creation_time'' (tt_creation_time t) PStr)"

definition MinimalTesTask_model_dump :: "MinimalTesTask \<Rightarrow> pyval" where
  "MinimalTesTask_model_dump t = PDict [(''id'', PStr (min_id t)), (''state'', PStr (min_state t))]"

text \<open>
  \<open>model_dump_json(indent=2)\<close>, which \<open>create_task_logic\<close> evaluates for its debug log,
  keeps the \<open>None\<close> fields. The serializers \<open>serialize_state\<close> and \<open>serialize_type\<close> read
  \<open>v.value\<close>, which raises on \<open>None\<close>: the call raises when the state of the task, or the
  type of one of its inputs or outputs, is \<open>None\<close>.
\<close>

definition model_dump_json_raises :: "TesTask \<Rightarrow> bool" where
  "model_dump_json_raises t =
     (tt_state t = None
      \<or> list_ex (\<lambda>i. inp_type i = None) (case tt_inputs t of None \<Rightarrow> [] | Some xs \<Rightarrow> xs)
      \<or> list_ex (\<lambda>out. outp_type out = None) (case tt_outputs t of None \<Rightarrow> [] | Some xs \<Rightarrow> xs))"

text \<open>
  What \<open>getattr(task_data, name, default)\<close> finds. \<open>MinimalTesTask\<close> declares the fields
  \<open>id\<close> and \<open>state\<close> and no other, so every other name gives the default.
\<close>

definition MinimalTesTask_getattr :: "MinimalTesTask \<Rightarrow> string \<Rightarrow> string option" where
  "MinimalTesTask_getattr t attr =
     (if attr = ''id'' then Some (min_id t)
      else if attr = ''state'' then Some (min_state t)
      else None)"


section \<open>constants.py: the configuration\<close>

text \<open>The class attributes of \<open>Constants\<close>, as read from the environment when the module
  is loaded.\<close>

text \<open>
  \<open>BACKOFF_FACTOR\<close> is \<open>float(os.getenv(...))\<close>, and \<open>float\<close> reads \<open>nan\<close>, \<open>inf\<close> and \<open>-inf\<close>
  as well as the finite numbers. Such a float is a \<open>pyfloat\<close>; \<open>float_le_zero x\<close> is the
  comparison \<open>x <= 0\<close>, which is false for \<open>nan\<close>.
\<close>

datatype pyfloat = Finite real | PosInf | NegInf | NaN

fun float_le_zero :: "pyfloat \<Rightarrow> bool" where
  "float_le_zero (Finite r) = (r \<le> 0)"
| "float_le_zero PosInf = False"
| "float_le_zero NegInf = True"
| "float_le_zero NaN = False"

record Constants =
  TES_URL :: "string option"
  REQUEST_TOKEN :: "string option"
  REQUEST_TIMEOUT :: int
  MAX_RETRIES :: int
  BACKOFF_FACTOR :: pyfloat
  MCP_HOST :: string
  MCP_PORT :: int
  LOG_LEVEL :: string
  TASK_POLL_INTERVAL :: int
  TASK_POLL_MAX_ATTEMPTS :: int

definition truthy :: "string option \<Rightarrow> bool" where
  \<comment> \<open>the truth value of a \<open>str | None\<close>: neither \<open>None\<close> nor empty\<close>
  "truthy s = (case s of None \<Rightarrow> False | Some x \<Rightarrow> x \<noteq> [])"

definition validate_config :: "Constants \<Rightarrow> string list" where
  "validate_config cls =
     (if \<not> truthy (TES_URL cls) then [''TES_URL environment variable is required''] else [])
     @ (if \<not> truthy (REQUEST_TOKEN cls)
        then [''TES_TOKEN environment variable should be set for secure authentication'']
        else [])
     @ (if REQUEST_TIMEOUT cls \<le> 0 then [''TES_REQUEST_TIMEOUT must be a positive integer'']
        else [])
     @ (if MAX_RETRIES cls < 0 then [''TES_MAX_RETRIES must be a non-negative integer'']
        else [])
     @ (if float_le_zero (BACKOFF_FACTOR cls)
        then [''TES_BACKOFF_FACTOR must be a positive number''] else [])
     @ (if MCP_PORT cls \<le> 0 \<or> MCP_PORT cls > 65535
        then [''MCP_PORT must be a valid port number (1-65535)''] else [])
     @ (if TASK_POLL_INTERVAL cls \<le> 0 then [''TASK_POLL_INTERVAL must be a positive integer'']
        else [])
     @ (if TASK_POLL_MAX_ATTEMPTS cls \<le> 0
        then [''TASK_POLL_MAX_ATTEMPTS must be a positive integer''] else [])"


section \<open>tes/client.py: the client of the service\<close>

text \<open>
  Exceptions are values. \<open>TESAuthenticationError\<close>, \<open>TESTaskNotFoundError\<close> and
  \<open>TESServerError\<close> are subclasses of \<open>TESClientError\<close>; \<open>HTTPError\<close>, \<open>ConnectionError\<close> and
  \<open>Timeout\<close> are the exceptions of the \<open>requests\<close> library; \<open>ValueError\<close> and
  \<open>TypeError\<close> are Python's own; \<open>OtherException\<close> is any other
  exception (pydantic's \<open>ValidationError\<close> and serialization error, a body that is not
  JSON, another failure of the transport). Each carries its message, \<open>str(e)\<close>. The text
  of a message that a library writes is not computed: the transport's messages are part
  of the outcome of a request, and the model puts the name of the exception in the place
  of pydantic's and the JSON decoder's text.
\<close>

datatype exn =
    ValueError string
  | TESClientError string
  | TESAuthenticationError string
  | TESTaskNotFoundError string
  | TESServerError string
  | HTTPError string
  | ConnectionError string
  | Timeout string
  | TypeError string
  | OtherException string

fun exn_str :: "exn \<Rightarrow> string" where
  "exn_str (ValueError m) = m"
| "exn_str (TESClientError m) = m"
| "exn_str (TESAuthenticationError m) = m"
| "exn_str (TESTaskNotFoundError m) = m"
| "exn_str (TESServerError m) = m"
| "exn_str (HTTPError m) = m"
| "exn_str (ConnectionError m) = m"
| "exn_str (Timeout m) = m"
| "exn_str (TypeError m) = m"
| "exn_str (OtherException m) = m"

text \<open>
  The network. A request is what the session sends; the transport (with its retries)
  answers with a response or raises. The function \<open>net\<close> that the operations take gives
  the outcome of each request, and every operation returns, beside its result, the list
  of the requests it has sent.
\<close>

record request =
  req_method :: string
  req_url :: string
  req_headers :: "(string \<times> string) list"
  req_json :: "pyval option"
  req_timeout :: int

record response =
  resp_status_code :: int
  resp_reason :: string
  resp_url :: string
  resp_text :: string
  resp_json :: "pyval option"  \<comment> \<open>\<open>response.json()\<close>; \<open>None\<close> when the body is not JSON\<close>

datatype net_outcome =
    Responded response
  | RaisedConnectionError string
  | RaisedTimeout string
  | RaisedOther string

definition raise_for_status :: "response \<Rightarrow> exn option" where
  \<comment> \<open>\<open>response.raise_for_status()\<close>: the \<open>HTTPError\<close> it raises, if any\<close>
  "raise_for_status r =
     (let sc = resp_status_code r in
      if 400 \<le> sc \<and> sc < 500
        then Some (HTTPError (str_int sc @ '' Client Error: '' @ resp_reason r
                              @ '' for url: '' @ resp_url r))
      else if 500 \<le> sc \<and> sc < 600
        then Some (HTTPError (str_int sc @ '' Server Error: '' @ resp_reason r
                              @ '' for url: '' @ resp_url r))
      else None)"

record PoiesisTesClient =
  base_url :: string
  auth_token :: "string option"
  client_timeout :: int

definition PoiesisTesClient_init ::
  "Constants \<Rightarrow> string option \<Rightarrow> string option \<Rightarrow> int option \<Rightarrow> exn + PoiesisTesClient" where
  \<comment> \<open>\<open>PoiesisTesClient(base_url, auth_token, timeout)\<close>; the warning about the token is a
      log line and has no effect\<close>
  "PoiesisTesClient_init constants a_base_url a_auth_token a_timeout =
     (let url = (if truthy a_base_url then a_base_url else TES_URL constants);
          token = (if truthy a_auth_token then a_auth_token else REQUEST_TOKEN constants);
          tmo = (case a_timeout of None \<Rightarrow> REQUEST_TIMEOUT constants
                 | Some t \<Rightarrow> if t \<noteq> 0 then t else REQUEST_TIMEOUT constants)
      in if \<not> truthy url
         then Inl (TESClientError
                (''TES service URL is required. Set TES_URL environment variable or ''
                 @ ''provide base_url parameter.''))
         else Inr \<lparr>base_url = rstrip_slash (the url), auth_token = token,
                   client_timeout = tmo\<rparr>)"

definition session_headers :: "PoiesisTesClient \<Rightarrow> (string \<times> string) list" where
  \<comment> \<open>the headers that \<open>_create_session\<close> sets\<close>
  "session_headers self =
     [(''Content-Type'', ''application/json''), (''Accept'', ''application/json''),
      (''User-Agent'', ''poiesis-mcp-client/1.0'')]
     @ (if truthy (auth_token self)
        then [(''Authorization'', ''Bearer '' @ the (auth_token self))] else [])"

definition send :: "(request \<Rightarrow> net_outcome) \<Rightarrow> request \<Rightarrow> exn + response" where
  \<comment> \<open>\<open>self._session.get\<close> and \<open>.post\<close>: the response, or the exception of the transport\<close>
  "send net rq =
     (case net rq of
        Responded r \<Rightarrow> Inr r
      | RaisedConnectionError m \<Rightarrow> Inl (ConnectionError m)
      | RaisedTimeout m \<Rightarrow> Inl (Timeout m)
      | RaisedOther m \<Rightarrow> Inl (OtherException m))"

subsection \<open>\<open>create_task\<close>\<close>

definition client_create_task_try :: "response \<Rightarrow> exn + TesCreateTaskResponse" where
  \<comment> \<open>the body of the \<open>try\<close> after the response has arrived\<close>
  "client_create_task_try r =
     (let sc = resp_status_code r in
      if sc = 401 then Inl (TESAuthenticationError ''Authentication failed. Check your TES_TOKEN.'')
      else if sc = 403 then Inl (TESAuthenticationError ''Access forbidden. Check your permissions.'')
      else if sc \<ge> 500
        then Inl (TESServerError (''TES server error ('' @ str_int sc @ ''): '' @ resp_text r))
      else (case raise_for_status r of
              Some e \<Rightarrow> Inl e
            | None \<Rightarrow>
               (case resp_json r of
                  None \<Rightarrow> Inl (OtherException ''JSONDecodeError'')
                | Some j \<Rightarrow>
                   (case TesCreateTaskResponse_model_validate j of
                      None \<Rightarrow> Inl (OtherException ''ValidationError'')
                    | Some result \<Rightarrow>
                       if created_id result = []
                       then Inl (TESClientError
                              ''Task creation succeeded but no task ID was returned.'')
                       else Inr result))))"

definition client_create_task_except :: "exn \<Rightarrow> exn" where
  \<comment> \<open>the \<open>except\<close> clauses, in their order; the last one catches every other exception, the
      client's own among them\<close>
  "client_create_task_except e =
     (case e of
        HTTPError m \<Rightarrow> TESServerError (''Failed to create task: '' @ m)
      | ConnectionError m \<Rightarrow> TESClientError (''Network error while creating task: '' @ m)
      | Timeout m \<Rightarrow> TESClientError (''Network error while creating task: '' @ m)
      | _ \<Rightarrow> TESClientError (''Unexpected error while creating task: '' @ exn_str e))"

definition client_create_task ::
  "(request \<Rightarrow> net_outcome) \<Rightarrow> string \<Rightarrow> PoiesisTesClient \<Rightarrow> TesTask
     \<Rightarrow> (exn + TesCreateTaskResponse) \<times> request list" where
  "client_create_task net cwd self task =
     (let endpoint = base_url self @ ''/tasks'';
          task_data = TesTask_model_dump cwd task;
          rq = \<lparr>req_method = ''POST'', req_url = endpoint, req_headers = session_headers self,
                req_json = Some task_data, req_timeout = client_timeout self\<rparr>
      in (case send net rq of
            Inl e \<Rightarrow> (Inl (client_create_task_except e), [rq])
          | Inr r \<Rightarrow>
             (case client_create_task_try r of
                Inl e \<Rightarrow> (Inl (client_create_task_except e), [rq])
              | Inr result \<Rightarrow> (Inr result, [rq]))))"

subsection \<open>\<open>get_task\<close>\<close>

datatype task_data = Full TesTask | Minimal MinimalTesTask

definition client_get_task_try :: "string \<Rightarrow> string \<Rightarrow> string \<Rightarrow> response \<Rightarrow> exn + task_data" where
  \<comment> \<open>the body of the \<open>try\<close> after the response has arrived\<close>
  "client_get_task_try now_str task_id_str view r =
     (let sc = resp_status_code r in
      if sc = 401 then Inl (TESAuthenticationError ''Authentication failed. Check your TES_TOKEN.'')
      else if sc = 403 then Inl (TESAuthenticationError ''Access forbidden. Check your permissions.'')
      else if sc = 404 then Inl (TESTaskNotFoundError (''Task '' @ task_id_str @ '' not found.''))
      else if sc \<ge> 500
        then Inl (TESServerError (''TES server error ('' @ str_int sc @ ''): '' @ resp_text r))
      else (case raise_for_status r of
              Some e \<Rightarrow> Inl e
            | None \<Rightarrow>
               (case resp_json r of
                  None \<Rightarrow> Inl (OtherException ''JSONDecodeError'')
                | Some j \<Rightarrow>
                   if view = TesView_value MINIMAL
                   then (case MinimalTesTask_model_validate j of
                           None \<Rightarrow> Inl (OtherException ''ValidationError'')
                         | Some result \<Rightarrow> Inr (Minimal result))
                   else (case TesTask_model_validate now_str j of
                           None \<Rightarrow> Inl (OtherException ''ValidationError'')
                         | Some result \<Rightarrow> Inr (Full result)))))"

definition client_get_task_except :: "string \<Rightarrow> exn \<Rightarrow> exn" where
  \<comment> \<open>the \<open>except\<close> clauses, in their order; the last one catches every other exception, the
      client's own among them\<close>
  "client_get_task_except task_id_str e =
     (case e of
        HTTPError m \<Rightarrow> TESServerError (''Failed to retrieve task '' @ task_id_str @ '': '' @ m)
      | ConnectionError m \<Rightarrow>
          TESClientError (''Network error while retrieving task '' @ task_id_str @ '': '' @ m)
      | Timeout m \<Rightarrow>
          TESClientError (''Network error while retrieving task '' @ task_id_str @ '': '' @ m)
      | _ \<Rightarrow> TESClientError (''Unexpected error while retrieving task '' @ task_id_str
                              @ '': '' @ exn_str e))"

definition client_get_task ::
  "(request \<Rightarrow> net_outcome) \<Rightarrow> string \<Rightarrow> PoiesisTesClient \<Rightarrow> string \<Rightarrow> string option
     \<Rightarrow> (exn + task_data) \<times> request list" where
  "client_get_task net now_str self task_id a_view =
     (let task_id_str = task_id;
          view = (case a_view of None \<Rightarrow> TesView_value BASIC | Some v \<Rightarrow> v);
          valid_views = [TesView_value MINIMAL, TesView_value BASIC, TesView_value FULL]
      in if view \<notin> set valid_views
         then (Inl (TESClientError (''Invalid view '' @ squote view @ ''. Must be one of: ''
                                    @ join '', '' valid_views)), [])
         else
          (let endpoint = base_url self @ ''/tasks/'' @ task_id_str;
               endpoint = (if view \<noteq> [] then endpoint @ ''?view='' @ view else endpoint);
               rq = \<lparr>req_method = ''GET'', req_url = endpoint,
                     req_headers = session_headers self, req_json = None,
                     req_timeout = client_timeout self\<rparr>
           in (case send net rq of
                 Inl e \<Rightarrow> (Inl (client_get_task_except task_id_str e), [rq])
               | Inr r \<Rightarrow>
                  (case client_get_task_try now_str task_id_str view r of
                     Inl e \<Rightarrow> (Inl (client_get_task_except task_id_str e), [rq])
                   | Inr result \<Rightarrow> (Inr result, [rq])))))"

subsection \<open>\<open>health_check\<close>\<close>

definition health_check_request :: "PoiesisTesClient \<Rightarrow> request" where
  "health_check_request self =
     \<lparr>req_method = ''GET'', req_url = base_url self @ ''/service-info'',
      req_headers = session_headers self, req_json = None, req_timeout = 10\<rparr>"

definition health_check_try :: "(request \<Rightarrow> net_outcome) \<Rightarrow> PoiesisTesClient \<Rightarrow> exn + bool" where
  \<comment> \<open>the body of the \<open>try\<close>\<close>
  "health_check_try net self =
     (case send net (health_check_request self) of
        Inl e \<Rightarrow> Inl e
      | Inr r \<Rightarrow> Inr (resp_status_code r = 200))"

definition health_check :: "(request \<Rightarrow> net_outcome) \<Rightarrow> PoiesisTesClient \<Rightarrow> exn + bool" where
  \<comment> \<open>\<open>except Exception\<close> catches every exception of the body and returns \<open>False\<close>\<close>
  "health_check net self =
     (case health_check_try net self of
        Inl e \<Rightarrow> Inr False
      | Inr b \<Rightarrow> Inr b)"


section \<open>tools/create_task.py\<close>

definition create_task_logic_except :: "TesTask \<Rightarrow> exn \<Rightarrow> exn" where
  \<comment> \<open>the \<open>except\<close> clauses of \<open>create_task_logic\<close>, in their order. In the first three the
      source assigns the first string literal only: the literal on the next line is a
      statement of its own\<close>
  "create_task_logic_except task e =
     (case e of
        TESAuthenticationError m \<Rightarrow>
          ValueError (''Authentication failed when creating task: '' @ m
                      @ ''. Please check your '')
      | TESServerError m \<Rightarrow>
          ValueError (''TES server error when creating task: '' @ m
                      @ ''. The TES service may be '')
      | TESClientError m \<Rightarrow>
          ValueError (''Client error when creating task: '' @ m @ ''. Please check your task '')
      | TESTaskNotFoundError m \<Rightarrow>
          ValueError (''Client error when creating task: '' @ m @ ''. Please check your task '')
      | _ \<Rightarrow>
          ValueError (''Unexpected error creating task ''
                      @ squote (if truthy (tt_name task) then the (tt_name task) else ''Unnamed'')
                      @ '': '' @ exn_str e))"

definition create_task_logic ::
  "Constants \<Rightarrow> (request \<Rightarrow> net_outcome) \<Rightarrow> string \<Rightarrow> TesTask
     \<Rightarrow> (exn + TesCreateTaskResponse) \<times> request list" where
  "create_task_logic constants net cwd task =
     (if tt_executors task = []
      then (Inl (create_task_logic_except task
                  (ValueError (''Task must have at least one executor. Please provide a list of ''
                               @ ''executors with commands to run.''))), [])
      else if model_dump_json_raises task
      then (Inl (create_task_logic_except task (OtherException ''PydanticSerializationError'')), [])
      else
       (case PoiesisTesClient_init constants None None None of
          Inl e \<Rightarrow> (Inl (create_task_logic_except task e), [])
        | Inr client \<Rightarrow>
           (case client_create_task net cwd client task of
              (Inl e, sent) \<Rightarrow> (Inl (create_task_logic_except task e), sent)
            | (Inr response_data, sent) \<Rightarrow>
               if created_id response_data = []
               then (Inl (create_task_logic_except task
                           (ValueError (''Task was submitted but no task ID was returned from the TES service.''
                                        @ ''This indicates a server-side issue.''))), sent)
               else (Inr response_data, sent))))"


section \<open>tools/get_task.py\<close>

text \<open>
  The value of an attribute that \<open>get_task_logic\<close> reads with \<open>getattr\<close>: a string, \<open>None\<close>,
  or a member of \<open>TesState\<close> (the \<open>state\<close> of a \<open>TesTask\<close>). A member of \<open>TesState\<close> is
  not equal to any string, and \<open>str\<close> of it is \<open>TesState.\<close> followed by its name.
\<close>

datatype attr_val = AStr string | ANone | AState TesState

fun attr_format :: "attr_val \<Rightarrow> string" where
  "attr_format (AStr s) = s"
| "attr_format ANone = ''None''"
| "attr_format (AState st) = ''TesState.'' @ TesState_value st"

definition attr_of_str :: "string option \<Rightarrow> attr_val" where
  "attr_of_str s = (case s of None \<Rightarrow> ANone | Some x \<Rightarrow> AStr x)"

definition getattr_state :: "task_data \<Rightarrow> attr_val \<Rightarrow> attr_val" where
  \<comment> \<open>\<open>getattr(task_data, "state", dflt)\<close>\<close>
  "getattr_state td dflt =
     (case td of
        Minimal t \<Rightarrow> (case MinimalTesTask_getattr t ''state'' of Some s \<Rightarrow> AStr s | None \<Rightarrow> dflt)
      | Full t \<Rightarrow> (case tt_state t of None \<Rightarrow> ANone | Some st \<Rightarrow> AState st))"

definition getattr_name :: "task_data \<Rightarrow> attr_val \<Rightarrow> attr_val" where
  \<comment> \<open>\<open>getattr(task_data, "name", dflt)\<close>\<close>
  "getattr_name td dflt =
     (case td of
        Minimal t \<Rightarrow> (case MinimalTesTask_getattr t ''name'' of Some s \<Rightarrow> AStr s | None \<Rightarrow> dflt)
      | Full t \<Rightarrow> attr_of_str (tt_name t))"

definition getattr_creation_time :: "task_data \<Rightarrow> attr_val \<Rightarrow> attr_val" where
  \<comment> \<open>\<open>getattr(task_data, "creation_time", dflt)\<close>\<close>
  "getattr_creation_time td dflt =
     (case td of
        Minimal t \<Rightarrow>
          (case MinimalTesTask_getattr t ''creation_time'' of Some s \<Rightarrow> AStr s | None \<Rightarrow> dflt)
      | Full t \<Rightarrow> attr_of_str (tt_creation_time t))"

definition state_descriptions :: "(string \<times> string) list" where
  "state_descriptions =
     [(TesState_value UNKNOWN, ''Status is unknown or not yet determined''),
      (TesState_value QUEUED, ''Task is queued and waiting to start execution''),
      (TesState_value INITIALIZING, ''Task is being initialized for execution''),
      (TesState_value RUNNING, ''Task is currently running''),
      (TesState_value PAUSED, ''Task execution has been paused''),
      (TesState_value COMPLETE, ''Task completed successfully''),
      (TesState_value EXECUTOR_ERROR, ''Task failed due to an error in the executor''),
      (TesState_value SYSTEM_ERROR, ''Task failed due to a system error''),
      (TesState_value CANCELED, ''Task was canceled''),
      (TesState_value PREEMPTED, ''Task was preempted by the system'')]"

definition create_status_summary :: "attr_val \<Rightarrow> attr_val \<Rightarrow> attr_val \<Rightarrow> string" where
  "create_status_summary state name creation_time =
     (let state_desc =
            (case state of
               AStr s \<Rightarrow> (case map_of state_descriptions s of
                            Some d \<Rightarrow> d
                          | None \<Rightarrow> ''Unknown state: '' @ attr_format state)
             | _ \<Rightarrow> ''Unknown state: '' @ attr_format state)
      in ''Task '' @ squote (attr_format name) @ '' (created '' @ attr_format creation_time
         @ ''): '' @ state_desc)"

fun generate_next_steps :: "attr_val \<Rightarrow> string \<Rightarrow> string" where
  "generate_next_steps (AStr state) current_view =
     (if state = TesState_value COMPLETE then
        (if current_view \<noteq> ''FULL''
         then ''Task completed successfully! Use get_tes_task with view='' @ squote ''FULL''
              @ '' to '' @ ''see execution logs and output file details.''
         else ''Task completed successfully. Check the '' @ squote ''outputs'' @ '' and ''
              @ squote ''logs'' @ '' '' @ ''sections for results and execution details.'')
      else if state \<in> set [TesState_value EXECUTOR_ERROR, TesState_value SYSTEM_ERROR] then
        (if current_view \<noteq> ''FULL''
         then ''Task failed with '' @ state @ ''. Use get_tes_task with view='' @ squote ''FULL''
              @ '' to '' @ ''see detailed error logs and determine the cause.''
         else ''Task failed. Review the '' @ squote ''logs''
              @ '' section for error details. You may ''
              @ ''need to modify the task specification and retry.'')
      else if state = TesState_value CANCELED then
        ''Task was canceled. Check with the user if this was intentional, or if ''
        @ ''the task should be recreated.''
      else if state \<in> set [TesState_value RUNNING, TesState_value QUEUED,
                            TesState_value INITIALIZING] then
        ''Task is still '' @ lower state @ ''. Use wait_for_task_completion to monitor ''
        @ ''progress, or check again later.''
      else if state = TesState_value PAUSED then
        ''Task is paused. You may need to resume it or check with the TES service''
        @ '' administrator.''
      else ''Task is in '' @ state @ '' state. Use wait_for_task_completion to monitor for''
           @ ''changes.'')"
| "generate_next_steps state current_view =
     ''Task is in '' @ attr_format state @ '' state. Use wait_for_task_completion to monitor for''
     @ ''changes.''"

record ResponseWithMessage =
  rwm_message :: string
  rwm_data :: task_data

definition get_task_logic_except :: "string \<Rightarrow> exn \<Rightarrow> exn" where
  \<comment> \<open>the \<open>except\<close> clauses of \<open>get_task_logic\<close>, in their order; \<open>task_id\<close> is the value
      of the variable when the exception is raised\<close>
  "get_task_logic_except task_id e =
     (case e of
        TESTaskNotFoundError m \<Rightarrow>
          ValueError (''Task '' @ task_id @ '' not found: '' @ m
                      @ ''. Please verify the task ID is ''
                      @ ''correct and the task exists.'')
      | TESAuthenticationError m \<Rightarrow>
          ValueError (''Authentication failed when retrieving task '' @ task_id @ '': '' @ m
                      @ ''. '' @ ''Please check your TES_TOKEN environment variable.'')
      | TESServerError m \<Rightarrow>
          ValueError (''TES server error when retrieving task '' @ task_id @ '': '' @ m
                      @ ''. The service'' @ '' may be experiencing issues.'')
      | TESClientError m \<Rightarrow>
          ValueError (''Client error when retrieving task '' @ task_id @ '': '' @ m
                      @ ''. Please check '' @ ''your network connectivity and task ID format.'')
      | _ \<Rightarrow> ValueError (''Unexpected error retrieving task '' @ task_id @ '': '' @ exn_str e))"

definition get_task_finish ::
  "string \<Rightarrow> string \<Rightarrow> string \<Rightarrow> task_data \<Rightarrow> exn + ResponseWithMessage" where
  \<comment> \<open>the body of the \<open>try\<close> after the client has returned \<open>task_data\<close>\<close>
  "get_task_finish cwd now_str view td =
     (let state = getattr_state td (AStr (TesState_value UNKNOWN));
          name = getattr_name td (AStr ''Unnamed Task'');
          creation_time = getattr_creation_time td (AStr ''Unknown'');
          status_summary = create_status_summary state name creation_time;
          next_steps = generate_next_steps state view;
          task_dict = (case td of Full t \<Rightarrow> TesTask_model_dump cwd t
                       | Minimal t \<Rightarrow> MinimalTesTask_model_dump t);
          message = status_summary @ [CHR 0x0A] @ next_steps
      in if view = ''MINIMAL''
         then (case MinimalTesTask_model_validate task_dict of
                 None \<Rightarrow> Inl (OtherException ''ValidationError'')
               | Some d \<Rightarrow> Inr \<lparr>rwm_message = message, rwm_data = Minimal d\<rparr>)
         else (case TesTask_model_validate now_str task_dict of
                 None \<Rightarrow> Inl (OtherException ''ValidationError'')
               | Some d \<Rightarrow> Inr \<lparr>rwm_message = message, rwm_data = Full d\<rparr>))"

definition get_task_logic ::
  "Constants \<Rightarrow> (request \<Rightarrow> net_outcome) \<Rightarrow> string \<Rightarrow> string \<Rightarrow> string \<Rightarrow> string
     \<Rightarrow> (exn + ResponseWithMessage) \<times> request list" where
  "get_task_logic constants net cwd now_str a_task_id a_view =
     (if a_task_id = [] \<or> strip a_task_id = []
      then (Inl (get_task_logic_except a_task_id (ValueError ''Task ID is required and cannot be empty.'')),
            [])
      else
       (let task_id = strip a_task_id;
            view = (if a_view \<noteq> [] then strip (upper a_view) else ''BASIC'');
            valid_views = [''MINIMAL'', ''BASIC'', ''FULL'']
        in if view \<notin> set valid_views
           then (Inl (get_task_logic_except task_id
                       (ValueError (''Invalid view '' @ squote view @ ''. Must be one of: ''
                                    @ join '', '' valid_views @ ''. ''
                                    @ ''Use MINIMAL for quick status checks, BASIC for standard info, or ''
                                    @ ''FULL for complete details including logs.''))), [])
           else
            (case PoiesisTesClient_init constants None None None of
               Inl e \<Rightarrow> (Inl (get_task_logic_except task_id e), [])
             | Inr client \<Rightarrow>
                (case client_get_task net now_str client task_id (Some view) of
                   (Inl e, sent) \<Rightarrow> (Inl (get_task_logic_except task_id e), sent)
                 | (Inr td, sent) \<Rightarrow>
                    (case get_task_finish cwd now_str view td of
                       Inl e \<Rightarrow> (Inl (get_task_logic_except task_id e), sent)
                     | Inr res \<Rightarrow> (Inr res, sent))))))"


section \<open>tools/wait.py\<close>

text \<open>The enumeration \<open>TaskStatus\<close>; its member \<open>CANCELED\<close> is written \<open>TASK_CANCELED\<close>
  here, because \<open>TesState\<close> has a member of the same name.\<close>

datatype TaskStatus =
    COMPLETED_SUCCESS | COMPLETED_FAILED | STILL_RUNNING | STILL_RUNNING_TIMEOUT
  | TASK_CANCELED | ERROR_STATE | UNKNOWN_STATE

fun TaskStatus_value :: "TaskStatus \<Rightarrow> string" where
  "TaskStatus_value COMPLETED_SUCCESS = ''completed_success''"
| "TaskStatus_value COMPLETED_FAILED = ''completed_failed''"
| "TaskStatus_value STILL_RUNNING = ''still_running''"
| "TaskStatus_value STILL_RUNNING_TIMEOUT = ''still_running_timeout''"
| "TaskStatus_value TASK_CANCELED = ''canceled''"
| "TaskStatus_value ERROR_STATE = ''error_state''"
| "TaskStatus_value UNKNOWN_STATE = ''unknown_state''"

datatype WaitStrategy = CONTINUE_WAITING | CHECK_LOGS | NOTIFY_USER | SUCCESS_PROCEED

fun WaitStrategy_value :: "WaitStrategy \<Rightarrow> string" where
  "WaitStrategy_value CONTINUE_WAITING = ''continue_waiting''"
| "WaitStrategy_value CHECK_LOGS = ''check_logs''"
| "WaitStrategy_value NOTIFY_USER = ''notify_user''"
| "WaitStrategy_value SUCCESS_PROCEED = ''success_proceed''"

text \<open>\<open>_analyze_task_status(state, duration_minutes, max_wait_minutes)\<close>: the chain of
  \<open>if\<close> statements of the source, in its order.\<close>

definition analyze_task_status :: "string \<Rightarrow> real \<Rightarrow> int \<Rightarrow> TaskStatus" where
  "analyze_task_status state duration_minutes max_wait_minutes =
     (if state = TesState_value COMPLETE then COMPLETED_SUCCESS
      else if state \<in> set [TesState_value EXECUTOR_ERROR, TesState_value SYSTEM_ERROR]
        then COMPLETED_FAILED
      else if state = TesState_value CANCELED then TASK_CANCELED
      else if state \<in> set [TesState_value RUNNING, TesState_value QUEUED,
                            TesState_value INITIALIZING]
        then (if duration_minutes \<ge> of_int max_wait_minutes then STILL_RUNNING_TIMEOUT
              else STILL_RUNNING)
      else if state \<in> set [TesState_value PAUSED, TesState_value PREEMPTED] then ERROR_STATE
      else UNKNOWN_STATE)"

text \<open>\<open>_calculate_adaptive_interval(state, duration_minutes)\<close>. The source reads
  \<open>base_interval\<close> from the configuration (\<open>constants.TASK_POLL_INTERVAL\<close>); here it is the
  first argument.\<close>

definition calculate_adaptive_interval :: "int \<Rightarrow> string \<Rightarrow> real \<Rightarrow> int" where
  "calculate_adaptive_interval base_interval state duration_minutes =
     (if duration_minutes < 1 then max 2 (base_interval div 2)
      else if state \<in> set [TesState_value RUNNING, TesState_value INITIALIZING] then
        (if duration_minutes < 5 then base_interval
         else if duration_minutes < 15 then base_interval * 2
         else base_interval * 3)
      else if state = TesState_value QUEUED then base_interval
      else if state \<in> set [TesState_value UNKNOWN, TesState_value PAUSED]
        then max 3 (base_interval div 2)
      else base_interval)"


text \<open>
  \<open>_calculate_task_duration(creation_time)\<close>. \<open>datetime.fromisoformat\<close> is the standard
  library's parser: on a string it returns a datetime or raises \<open>ValueError\<close>, so it is the
  argument \<open>fromisoformat\<close>, with \<open>None\<close> for the raise. A datetime is naive (no UTC offset)
  or aware (an instant, in seconds); \<open>datetime.now(UTC)\<close> is the aware instant \<open>now\<close>, and
  subtracting a naive datetime from an aware one raises \<open>TypeError\<close>.
\<close>

datatype datetime = Naive real | Aware real

definition datetime_sub :: "datetime \<Rightarrow> datetime \<Rightarrow> exn + real" where
  \<comment> \<open>\<open>(a - b).total_seconds()\<close>\<close>
  "datetime_sub a b =
     (case (a, b) of
        (Aware x, Aware y) \<Rightarrow> Inr (x - y)
      | (Naive x, Naive y) \<Rightarrow> Inr (x - y)
      | _ \<Rightarrow> Inl (TypeError ''can't subtract offset-naive and offset-aware datetimes''))"

definition calculate_task_duration_try ::
  "(string \<Rightarrow> datetime option) \<Rightarrow> real \<Rightarrow> string \<Rightarrow> exn + real" where
  \<comment> \<open>the body of the \<open>try\<close>\<close>
  "calculate_task_duration_try fromisoformat now a_creation_time =
     (let creation_time = (if endswith a_creation_time ''Z''
                           then butlast a_creation_time @ ''+00:00''
                           else a_creation_time)
      in case fromisoformat creation_time of
           None \<Rightarrow> Inl (ValueError (''Invalid isoformat string: '' @ squote creation_time))
         | Some start_time \<Rightarrow>
            (case datetime_sub (Aware now) start_time of
               Inl e \<Rightarrow> Inl e
             | Inr duration_seconds \<Rightarrow> Inr (duration_seconds / 60)))"

definition calculate_task_duration ::
  "(string \<Rightarrow> datetime option) \<Rightarrow> real \<Rightarrow> string option \<Rightarrow> exn + real" where
  \<comment> \<open>\<open>except (ValueError, TypeError)\<close> returns \<open>0.0\<close>; any other exception would leave
      the function\<close>
  "calculate_task_duration fromisoformat now creation_time =
     (if \<not> truthy creation_time then Inr 0
      else (case calculate_task_duration_try fromisoformat now (the creation_time) of
              Inr d \<Rightarrow> Inr d
            | Inl (ValueError m) \<Rightarrow> Inr 0
            | Inl (TypeError m) \<Rightarrow> Inr 0
            | Inl e \<Rightarrow> Inl e))"

text \<open>
  Numbers in the payload. \<open>round(x, 1)\<close> and the format \<open>.1f\<close> round to one decimal, a
  tie to the even digit; \<open>.1f\<close> prints the sign of a negative number also when the
  rounded digits are zero.
\<close>

definition round_half_even :: "real \<Rightarrow> int" where
  "round_half_even x =
     (let f = \<lfloor>x\<rfloor>; d = x - of_int f
      in if d < 1 / 2 then f else if d > 1 / 2 then f + 1 else if even f then f else f + 1)"

definition round1 :: "real \<Rightarrow> real" where
  \<comment> \<open>\<open>round(x, 1)\<close>\<close>
  "round1 x = of_int (round_half_even (x * 10)) / 10"

definition format_1f :: "real \<Rightarrow> string" where
  \<comment> \<open>\<open>f"{x:.1f}"\<close>\<close>
  "format_1f x =
     (let q = round_half_even (\<bar>x\<bar> * 10)
      in (if x < 0 then ''-'' else []) @ str_int (q div 10) @ ''.'' @ str_int (q mod 10))"

record format_args =
  fa_task_name :: string
  fa_duration_minutes :: real
  fa_check_interval_seconds :: int
  fa_max_wait_minutes :: int
  fa_state :: string

record template =
  tpl_should_continue_waiting :: bool
  tpl_wait_recommendation :: string
  tpl_next_action :: "string option"
  tpl_message :: "format_args \<Rightarrow> string"  \<comment> \<open>the template string, as \<open>.format\<close> fills it\<close>
  tpl_details :: "format_args \<Rightarrow> string"

fun RESPONSE_TEMPLATES :: "TaskStatus \<Rightarrow> template" where
  "RESPONSE_TEMPLATES COMPLETED_SUCCESS =
     \<lparr>tpl_should_continue_waiting = False,
      tpl_wait_recommendation = WaitStrategy_value SUCCESS_PROCEED,
      tpl_next_action = Some ''get_tes_task'',
      tpl_message = (\<lambda>a. ''Task '' @ squote (fa_task_name a) @ '' completed successfully after ''
                          @ format_1f (fa_duration_minutes a) @ '' minutes.''),
      tpl_details = (\<lambda>a. ''Use get_tes_task with view='' @ squote ''FULL''
                          @ '' to retrieve outputs and logs.'')\<rparr>"
| "RESPONSE_TEMPLATES COMPLETED_FAILED =
     \<lparr>tpl_should_continue_waiting = False,
      tpl_wait_recommendation = WaitStrategy_value CHECK_LOGS,
      tpl_next_action = Some ''get_tes_task'',
      tpl_message = (\<lambda>a. ''Task '' @ squote (fa_task_name a) @ '' failed after ''
                          @ format_1f (fa_duration_minutes a) @ '' minutes.''),
      tpl_details = (\<lambda>a. ''Use get_tes_task with view='' @ squote ''FULL''
                          @ '' to examine error logs.'')\<rparr>"
| "RESPONSE_TEMPLATES TASK_CANCELED =
     \<lparr>tpl_should_continue_waiting = False,
      tpl_wait_recommendation = WaitStrategy_value NOTIFY_USER,
      tpl_next_action = None,
      tpl_message = (\<lambda>a. ''Task '' @ squote (fa_task_name a) @ '' was canceled after ''
                          @ format_1f (fa_duration_minutes a) @ '' minutes.''),
      tpl_details = (\<lambda>a. ''The task was canceled. Confirm with the user before resubmitting.'')\<rparr>"
| "RESPONSE_TEMPLATES STILL_RUNNING =
     \<lparr>tpl_should_continue_waiting = True,
      tpl_wait_recommendation = WaitStrategy_value CONTINUE_WAITING,
      tpl_next_action = Some ''wait_for_task_completion'',
      tpl_message = (\<lambda>a. ''Task '' @ squote (fa_task_name a) @ '' is running (''
                          @ format_1f (fa_duration_minutes a) @ '' '' @ ''min elapsed).''),
      tpl_details = (\<lambda>a. ''Task is in progress. Check again in ''
                          @ str_int (fa_check_interval_seconds a) @ '' '' @ ''seconds.'')\<rparr>"
| "RESPONSE_TEMPLATES STILL_RUNNING_TIMEOUT =
     \<lparr>tpl_should_continue_waiting = True,
      tpl_wait_recommendation = WaitStrategy_value NOTIFY_USER,
      tpl_next_action = Some ''wait_for_task_completion'',
      tpl_message = (\<lambda>a. ''Task '' @ squote (fa_task_name a) @ '' running for ''
                          @ format_1f (fa_duration_minutes a) @ '' minutes, ''
                          @ ''exceeding threshold of '' @ str_int (fa_max_wait_minutes a)
                          @ '' min.''),
      tpl_details = (\<lambda>a. ''Task is taking longer than expected. Continue waiting or notify ''
                          @ ''user. Next check in '' @ str_int (fa_check_interval_seconds a)
                          @ '' seconds.'')\<rparr>"
| "RESPONSE_TEMPLATES ERROR_STATE =
     \<lparr>tpl_should_continue_waiting = False,
      tpl_wait_recommendation = WaitStrategy_value CHECK_LOGS,
      tpl_next_action = Some ''get_tes_task'',
      tpl_message = (\<lambda>a. ''Task '' @ squote (fa_task_name a) @ '' is in an error state (''
                          @ fa_state a @ '').''),
      tpl_details = (\<lambda>a. ''Use get_tes_task with view='' @ squote ''FULL''
                          @ '' to investigate.'')\<rparr>"
| "RESPONSE_TEMPLATES UNKNOWN_STATE =
     \<lparr>tpl_should_continue_waiting = True,
      tpl_wait_recommendation = WaitStrategy_value CONTINUE_WAITING,
      tpl_next_action = Some ''wait_for_task_completion'',
      tpl_message = (\<lambda>a. ''Task '' @ squote (fa_task_name a) @ '' is in an unknown state (''
                          @ fa_state a @ '').''),
      tpl_details = (\<lambda>a. ''Continue monitoring. Next check in ''
                          @ str_int (fa_check_interval_seconds a) @ '' '' @ ''seconds.'')\<rparr>"

record payload =
  p_success :: bool
  p_task_id :: string
  p_task_name :: string
  p_status :: string
  p_state :: string
  p_task_duration_minutes :: real
  p_estimated_wait_time :: int
  p_should_continue_waiting :: bool
  p_wait_recommendation :: string
  p_next_action :: "string option"
  p_message :: string
  p_details :: string

definition build_response_payload ::
  "TaskStatus \<Rightarrow> string \<Rightarrow> string \<Rightarrow> string \<Rightarrow> real \<Rightarrow> int \<Rightarrow> int \<Rightarrow> payload" where
  "build_response_payload status task_id task_name state duration_minutes
       check_interval_seconds max_wait_minutes =
     (let tpl = RESPONSE_TEMPLATES status;
          args = \<lparr>fa_task_name = task_name, fa_duration_minutes = duration_minutes,
                   fa_check_interval_seconds = check_interval_seconds,
                   fa_max_wait_minutes = max_wait_minutes, fa_state = state\<rparr>
      in \<lparr>p_success = True,
          p_task_id = task_id,
          p_task_name = task_name,
          p_status = TaskStatus_value status,
          p_state = state,
          p_task_duration_minutes = round1 duration_minutes,
          p_estimated_wait_time = check_interval_seconds,
          p_should_continue_waiting = tpl_should_continue_waiting tpl,
          p_wait_recommendation = tpl_wait_recommendation tpl,
          p_next_action = tpl_next_action tpl,
          p_message = tpl_message tpl args,
          p_details = tpl_details tpl args\<rparr>)"

definition wait_except :: "string \<Rightarrow> exn \<Rightarrow> exn" where
  \<comment> \<open>the \<open>except\<close> clauses of \<open>wait_for_task_completion\<close>, in their order\<close>
  "wait_except task_id e =
     (case e of
        TESTaskNotFoundError m \<Rightarrow> ValueError (''Task '' @ task_id @ '' not found.'')
      | TESAuthenticationError m \<Rightarrow> ValueError ''TES authentication failed. Verify credentials.''
      | TESServerError m \<Rightarrow> ValueError ''TES server error during status check.''
      | TESClientError m \<Rightarrow> ValueError (''Client error checking task '' @ task_id @ '': '' @ m)
      | _ \<Rightarrow> ValueError (''An unexpected error occurred: '' @ exn_str e))"

definition wait_report ::
  "Constants \<Rightarrow> (string \<Rightarrow> datetime option) \<Rightarrow> real \<Rightarrow> string \<Rightarrow> int \<Rightarrow> MinimalTesTask
     \<Rightarrow> exn + payload" where
  \<comment> \<open>the body of the \<open>try\<close> after the client has returned \<open>task_data\<close>\<close>
  "wait_report constants fromisoformat now task_id max_wait_minutes task_data =
     (let current_state = (case MinimalTesTask_getattr task_data ''state'' of
                             Some s \<Rightarrow> s | None \<Rightarrow> TesState_value UNKNOWN);
          task_name = (case MinimalTesTask_getattr task_data ''name'' of
                         Some s \<Rightarrow> s | None \<Rightarrow> ''Unnamed Task'');
          creation_time = MinimalTesTask_getattr task_data ''creation_time''
      in case calculate_task_duration fromisoformat now creation_time of
           Inl e \<Rightarrow> Inl e
         | Inr duration_minutes \<Rightarrow>
            (let status = analyze_task_status current_state duration_minutes max_wait_minutes;
                 check_interval_seconds =
                   calculate_adaptive_interval (TASK_POLL_INTERVAL constants) current_state
                     duration_minutes
             in Inr (build_response_payload status task_id task_name current_state
                       duration_minutes check_interval_seconds max_wait_minutes)))"

text \<open>
  \<open>wait_for_task_completion(task_id, max_wait_minutes)\<close>. The client is asked for the
  \<open>MINIMAL\<close> view and so returns a \<open>MinimalTesTask\<close> or raises; the branch for a \<open>TesTask\<close>
  is there for the type of \<open>client_get_task\<close> only and is never taken (lemma
  \<open>client_get_task_minimal\<close> below).
\<close>

definition wait_for_task_completion ::
  "Constants \<Rightarrow> (request \<Rightarrow> net_outcome) \<Rightarrow> (string \<Rightarrow> datetime option) \<Rightarrow> real \<Rightarrow> string
     \<Rightarrow> string \<Rightarrow> int \<Rightarrow> (exn + payload) \<times> request list" where
  "wait_for_task_completion constants net fromisoformat now now_str a_task_id a_max_wait_minutes =
     (if a_task_id = [] \<or> strip a_task_id = []
      then (Inl (wait_except a_task_id (ValueError ''Task ID cannot be empty.'')), [])
      else
       (let task_id = strip a_task_id;
            max_wait_minutes = (if a_max_wait_minutes \<le> 0 then 10 else a_max_wait_minutes)
        in case PoiesisTesClient_init constants None None None of
             Inl e \<Rightarrow> (Inl (wait_except task_id e), [])
           | Inr client \<Rightarrow>
              (case client_get_task net now_str client task_id (Some (TesView_value MINIMAL)) of
                 (Inl e, sent) \<Rightarrow> (Inl (wait_except task_id e), sent)
               | (Inr (Full t), sent) \<Rightarrow> (Inl (OtherException ''not reached''), sent)
               | (Inr (Minimal task_data), sent) \<Rightarrow>
                  (case wait_report constants fromisoformat now task_id max_wait_minutes
                          task_data of
                     Inl e \<Rightarrow> (Inl (wait_except task_id e), sent)
                   | Inr response_payload \<Rightarrow> (Inr response_payload, sent)))))"


section \<open>main.py: validation of the environment\<close>

definition validate_environment ::
  "Constants \<Rightarrow> (request \<Rightarrow> net_outcome) \<Rightarrow> bool \<times> string list" where
  "validate_environment constants net =
     (let errors = validate_config constants
      in if errors \<noteq> [] then (False, errors)
         else
          (let errors =
                 (case PoiesisTesClient_init constants None None None of
                    Inl e \<Rightarrow> errors @ [''Failed to initialize TES client: '' @ exn_str e]
                  | Inr client \<Rightarrow>
                     if truthy (TES_URL constants) then
                       (case health_check net client of
                          Inl e \<Rightarrow> errors @ [''Failed to initialize TES client: '' @ exn_str e]
                        | Inr is_healthy \<Rightarrow>
                           if \<not> is_healthy
                           then errors @ [''TES service at '' @ the (TES_URL constants)
                                          @ '' is not accessible.'']
                           else errors)
                     else errors)
           in (length errors = 0, errors)))"


section \<open>Example inputs\<close>

text \<open>A configuration, two networks and some tasks, at which the theorems below are
  evaluated.\<close>

definition example_constants :: Constants where
  "example_constants =
     \<lparr>TES_URL = Some ''http://tes.example/'', REQUEST_TOKEN = Some ''asdf'',
      REQUEST_TIMEOUT = 60, MAX_RETRIES = 3, BACKOFF_FACTOR = Finite 1, MCP_HOST = ''0.0.0.0'',
      MCP_PORT = 8080, LOG_LEVEL = ''INFO'', TASK_POLL_INTERVAL = 5,
      TASK_POLL_MAX_ATTEMPTS = 120\<rparr>"

definition example_client :: PoiesisTesClient where
  "example_client =
     \<lparr>base_url = ''http://tes.example'', auth_token = Some ''asdf'', client_timeout = 60\<rparr>"

definition net_down :: "request \<Rightarrow> net_outcome" where
  \<comment> \<open>no service: every request fails to connect\<close>
  "net_down rq = RaisedConnectionError ''connection refused''"

definition net_running :: "request \<Rightarrow> net_outcome" where
  \<comment> \<open>a service that answers every request with status 200 and a running task\<close>
  "net_running rq =
     Responded
       \<lparr>resp_status_code = 200, resp_reason = ''OK'', resp_url = req_url rq, resp_text = [],
        resp_json = Some
          (PDict [(''id'', PStr ''task-1''), (''state'', PStr ''RUNNING''),
                  (''name'', PStr ''align''),
                  (''creation_time'', PStr ''2024-01-01T00:00:00Z''),
                  (''executors'', PList [PDict [(''image'', PStr ''ubuntu''),
                                               (''command'', PList [PStr ''true''])]])])\<rparr>"

definition example_fromisoformat :: "string \<Rightarrow> datetime option" where
  \<comment> \<open>a parser that knows one timestamp, midnight of 1 January 2024 UTC\<close>
  "example_fromisoformat s =
     (if s = ''2024-01-01T00:00:00+00:00'' then Some (Aware 1704067200)
      else if s = ''2024-01-01T00:00:00'' then Some (Naive 1704067200)
      else None)"

definition example_executor :: TesExecutor where
  "example_executor =
     \<lparr>exec_image = ''ubuntu'', exec_command = [''true''], exec_workdir = None,
      exec_stdin = None, exec_stdout = None, exec_stderr = None, exec_env = None,
      exec_ignore_error = None\<rparr>"

definition example_input :: TesInput where
  \<comment> \<open>an input whose path is relative\<close>
  "example_input =
     \<lparr>inp_name = None, inp_description = None, inp_url = Some ''s3://bucket/file1'',
      inp_path = ''data/file1'', inp_type = Some FILE, inp_content = None,
      inp_streamable = None\<rparr>"

definition example_task :: TesTask where
  "example_task =
     \<lparr>tt_id = Some ''task-1'', tt_state = Some QUEUED, tt_name = Some ''align'',
      tt_description = None, tt_inputs = Some [example_input], tt_outputs = None,
      tt_resources = None, tt_executors = [example_executor], tt_volumes = None,
      tt_tags = None, tt_logs = None, tt_creation_time = Some ''2024-01-01T00:00:00+0000''\<rparr>"


section \<open>The classifier and the polling interval\<close>

text \<open>
  Claim C1. The status classifier is total: for every state string, every elapsed time and
  every threshold it returns one of the seven simplified statuses (the model has no error
  branch because the source only compares strings and numbers). It follows the case
  analysis of the specification: \<open>COMPLETE\<close> gives \<open>completed_success\<close>; \<open>EXECUTOR_ERROR\<close>
  and \<open>SYSTEM_ERROR\<close> give \<open>completed_failed\<close>; \<open>CANCELED\<close> gives \<open>canceled\<close>; \<open>RUNNING\<close>,
  \<open>QUEUED\<close> and \<open>INITIALIZING\<close> give \<open>still_running\<close> below the threshold and
  \<open>still_running_timeout\<close> from the threshold on (the boundary is on the timeout side);
  \<open>PAUSED\<close> and \<open>PREEMPTED\<close> give \<open>error_state\<close>; every other string, \<open>UNKNOWN\<close> and
  \<open>CANCELING\<close> among them, gives \<open>unknown_state\<close>. The theorem holds for every real
  elapsed time, so in particular for the non-negative ones.
\<close>

theorem analyze_task_status_total:
  fixes state :: string and elapsed :: real and max_wait :: int
  defines "r \<equiv> analyze_task_status state elapsed max_wait"
  shows "r \<in> {COMPLETED_SUCCESS, COMPLETED_FAILED, STILL_RUNNING, STILL_RUNNING_TIMEOUT,
               TASK_CANCELED, ERROR_STATE, UNKNOWN_STATE}
    \<and> (state = ''COMPLETE'' \<longrightarrow> r = COMPLETED_SUCCESS)
    \<and> (state = ''EXECUTOR_ERROR'' \<or> state = ''SYSTEM_ERROR'' \<longrightarrow> r = COMPLETED_FAILED)
    \<and> (state = ''CANCELED'' \<longrightarrow> r = TASK_CANCELED)
    \<and> (state = ''RUNNING'' \<or> state = ''QUEUED'' \<or> state = ''INITIALIZING'' \<longrightarrow>
          (elapsed < of_int max_wait \<longrightarrow> r = STILL_RUNNING)
        \<and> (elapsed \<ge> of_int max_wait \<longrightarrow> r = STILL_RUNNING_TIMEOUT))
    \<and> (state = ''PAUSED'' \<or> state = ''PREEMPTED'' \<longrightarrow> r = ERROR_STATE)
    \<and> (state \<notin> {''COMPLETE'', ''EXECUTOR_ERROR'', ''SYSTEM_ERROR'', ''CANCELED'', ''RUNNING'',
                   ''QUEUED'', ''INITIALIZING'', ''PAUSED'', ''PREEMPTED''}
          \<longrightarrow> r = UNKNOWN_STATE)
    \<and> (state = ''UNKNOWN'' \<or> state = ''CANCELING'' \<longrightarrow> r = UNKNOWN_STATE)"
  unfolding r_def analyze_task_status_def
  by (cases r) auto

theorem analyze_task_status_total_witness:
  "analyze_task_status ''RUNNING'' (49 / 10) 5 = STILL_RUNNING
   \<and> analyze_task_status ''RUNNING'' 5 5 = STILL_RUNNING_TIMEOUT
   \<and> analyze_task_status ''COMPLETE'' 7 5 = COMPLETED_SUCCESS
   \<and> analyze_task_status ''SYSTEM_ERROR'' 0 5 = COMPLETED_FAILED
   \<and> analyze_task_status ''CANCELED'' 0 5 = TASK_CANCELED
   \<and> analyze_task_status ''PREEMPTED'' 0 5 = ERROR_STATE
   \<and> analyze_task_status ''CANCELING'' 0 5 = UNKNOWN_STATE
   \<and> analyze_task_status ''no such state'' 0 5 = UNKNOWN_STATE"
  using analyze_task_status_total [of "''RUNNING''" "49 / 10" 5]
        analyze_task_status_total [of "''RUNNING''" 5 5]
        analyze_task_status_total [of "''COMPLETE''" 7 5]
        analyze_task_status_total [of "''SYSTEM_ERROR''" 0 5]
        analyze_task_status_total [of "''CANCELED''" 0 5]
        analyze_task_status_total [of "''PREEMPTED''" 0 5]
        analyze_task_status_total [of "''CANCELING''" 0 5]
        analyze_task_status_total [of "''no such state''" 0 5]
  by simp

text \<open>
  Claim C2. The adaptive interval, for every state string, every elapsed time and every
  base interval: below one minute it is \<open>max(2, base // 2)\<close> whatever the state; from one
  minute on it is, for \<open>RUNNING\<close> and \<open>INITIALIZING\<close>, the base below 5 minutes, twice the
  base from 5 to below 15 minutes and three times the base from 15 minutes on; for \<open>QUEUED\<close>
  the base; for \<open>UNKNOWN\<close> and \<open>PAUSED\<close> \<open>max(3, base // 2)\<close>; for every other state the
  base.
\<close>

theorem calculate_adaptive_interval_cases:
  fixes state :: string and elapsed :: real and base :: int
  defines "r \<equiv> calculate_adaptive_interval base state elapsed"
  shows "(elapsed < 1 \<longrightarrow> r = max 2 (base div 2))
    \<and> (1 \<le> elapsed \<and> (state = ''RUNNING'' \<or> state = ''INITIALIZING'') \<longrightarrow>
          (elapsed < 5 \<longrightarrow> r = base)
        \<and> (5 \<le> elapsed \<and> elapsed < 15 \<longrightarrow> r = base * 2)
        \<and> (15 \<le> elapsed \<longrightarrow> r = base * 3))
    \<and> (1 \<le> elapsed \<and> state = ''QUEUED'' \<longrightarrow> r = base)
    \<and> (1 \<le> elapsed \<and> (state = ''UNKNOWN'' \<or> state = ''PAUSED'') \<longrightarrow> r = max 3 (base div 2))
    \<and> (1 \<le> elapsed \<and> state \<notin> {''RUNNING'', ''INITIALIZING'', ''QUEUED'', ''UNKNOWN'', ''PAUSED''}
          \<longrightarrow> r = base)"
  unfolding r_def calculate_adaptive_interval_def
  by auto

theorem calculate_adaptive_interval_cases_witness:
  "calculate_adaptive_interval 5 ''RUNNING'' (1 / 2) = 2
   \<and> calculate_adaptive_interval 5 ''RUNNING'' 3 = 5
   \<and> calculate_adaptive_interval 5 ''INITIALIZING'' 5 = 10
   \<and> calculate_adaptive_interval 5 ''RUNNING'' 15 = 15
   \<and> calculate_adaptive_interval 5 ''QUEUED'' 100 = 5
   \<and> calculate_adaptive_interval 5 ''PAUSED'' 2 = 3
   \<and> calculate_adaptive_interval 5 ''COMPLETE'' 2 = 5"
  using calculate_adaptive_interval_cases [of "1 / 2" 5 "''RUNNING''"]
        calculate_adaptive_interval_cases [of 3 5 "''RUNNING''"]
        calculate_adaptive_interval_cases [of 5 5 "''INITIALIZING''"]
        calculate_adaptive_interval_cases [of 15 5 "''RUNNING''"]
        calculate_adaptive_interval_cases [of 100 5 "''QUEUED''"]
        calculate_adaptive_interval_cases [of 2 5 "''PAUSED''"]
        calculate_adaptive_interval_cases [of 2 5 "''COMPLETE''"]
  by simp


section \<open>The wait operation\<close>

lemma wait_report_minimal:
  "wait_report constants fromisoformat now task_id max_wait t =
     Inr (build_response_payload (analyze_task_status (min_state t) 0 max_wait) task_id
            ''Unnamed Task'' (min_state t) 0 (max 2 (TASK_POLL_INTERVAL constants div 2))
            max_wait)"
  by (simp add: wait_report_def MinimalTesTask_getattr_def calculate_task_duration_def
        truthy_def calculate_adaptive_interval_def Let_def)

lemma round1_zero: "round1 0 = 0"
  by (simp add: round1_def round_half_even_def)

lemma status_not_timeout:
  "0 < max_wait \<Longrightarrow> analyze_task_status s 0 max_wait \<noteq> STILL_RUNNING_TIMEOUT"
  by (simp add: analyze_task_status_def)

lemma TaskStatus_value_inj: "TaskStatus_value a = TaskStatus_value b \<Longrightarrow> a = b"
  by (cases a; cases b) simp_all

lemma client_get_task_minimal:
  "client_get_task net now_str self task_id (Some (TesView_value MINIMAL)) \<noteq> (Inr (Full t), sent)"
  by (auto simp: client_get_task_def client_get_task_try_def Let_def
           split: sum.splits option.splits if_splits)

text \<open>
  Claim C3. Every successful call of \<open>wait_for_task_completion\<close> has read the answer to
  the \<open>MINIMAL\<close> view into a \<open>MinimalTesTask\<close>, which has the fields \<open>id\<close> and \<open>state\<close>
  only. So \<open>creation_time\<close> is absent, the computed duration is \<open>0.0\<close>, the returned
  \<open>task_duration_minutes\<close> is \<open>0.0\<close>, the returned status is never
  \<open>still_running_timeout\<close> whatever \<open>max_wait_minutes\<close> is, the returned \<open>task_name\<close> is
  \<open>Unnamed Task\<close>, and the returned \<open>estimated_wait_time\<close> is
  \<open>max(2, TASK_POLL_INTERVAL // 2)\<close>, whatever the service says about the age, the name or
  the state of the task.
\<close>

theorem wait_minimal_view_payload:
  assumes "wait_for_task_completion constants net fromisoformat now now_str a_task_id
             a_max_wait = (Inr p, sent)"
  shows "p_task_duration_minutes p = 0
    \<and> p_status p \<noteq> TaskStatus_value STILL_RUNNING_TIMEOUT
    \<and> p_task_name p = ''Unnamed Task''
    \<and> p_estimated_wait_time p = max 2 (TASK_POLL_INTERVAL constants div 2)
    \<and> (\<exists>client task_data.
          PoiesisTesClient_init constants None None None = Inr client
        \<and> client_get_task net now_str client (strip a_task_id) (Some ''MINIMAL'')
            = (Inr (Minimal task_data), sent)
        \<and> MinimalTesTask_getattr task_data ''creation_time'' = None
        \<and> calculate_task_duration fromisoformat now
             (MinimalTesTask_getattr task_data ''creation_time'') = Inr 0)"
proof -
  define m where "m = (if a_max_wait \<le> 0 then 10 else a_max_wait)"
  have m_pos: "0 < m" by (simp add: m_def)
  from assms obtain client task_data where
    c: "PoiesisTesClient_init constants None None None = Inr client" and
    g: "client_get_task net now_str client (strip a_task_id) (Some ''MINIMAL'')
          = (Inr (Minimal task_data), sent)" and
    r: "wait_report constants fromisoformat now (strip a_task_id) m task_data = Inr p"
    unfolding wait_for_task_completion_def m_def Let_def
    by (auto split: if_splits sum.splits prod.splits task_data.splits)
  have p: "p = build_response_payload (analyze_task_status (min_state task_data) 0 m)
                 (strip a_task_id) ''Unnamed Task'' (min_state task_data) 0
                 (max 2 (TASK_POLL_INTERVAL constants div 2)) m"
    using r by (simp add: wait_report_minimal)
  have s: "p_status p \<noteq> TaskStatus_value STILL_RUNNING_TIMEOUT"
    using status_not_timeout [OF m_pos, of "min_state task_data"] TaskStatus_value_inj
    unfolding p build_response_payload_def Let_def by fastforce
  have d: "MinimalTesTask_getattr task_data ''creation_time'' = None"
    by (simp add: MinimalTesTask_getattr_def)
  have "calculate_task_duration fromisoformat now None = Inr 0"
    by (simp add: calculate_task_duration_def truthy_def)
  with c g d s show ?thesis
    unfolding p build_response_payload_def Let_def by (auto simp: round1_zero)
qed


theorem wait_minimal_view_payload_witness:
  "wait_for_task_completion example_constants net_running example_fromisoformat 1704153600
       ''2024-01-02T00:00:00+0000'' ''task-1'' 5
     = (Inr \<lparr>p_success = True, p_task_id = ''task-1'', p_task_name = ''Unnamed Task'',
              p_status = ''still_running'', p_state = ''RUNNING'',
              p_task_duration_minutes = 0, p_estimated_wait_time = 2,
              p_should_continue_waiting = True, p_wait_recommendation = ''continue_waiting'',
              p_next_action = Some ''wait_for_task_completion'',
              p_message = ''Task 'Unnamed Task' is running (0.0 min elapsed).'',
              p_details = ''Task is in progress. Check again in 2 seconds.''\<rparr>,
        [\<lparr>req_method = ''GET'', req_url = ''http://tes.example/tasks/task-1?view=MINIMAL'',
          req_headers = [(''Content-Type'', ''application/json''),
                         (''Accept'', ''application/json''),
                         (''User-Agent'', ''poiesis-mcp-client/1.0''),
                         (''Authorization'', ''Bearer asdf'')],
          req_json = None, req_timeout = 60\<rparr>])
   \<and> max 2 (TASK_POLL_INTERVAL example_constants div 2) = 2"
proof -
  have e: "wait_for_task_completion example_constants net_running example_fromisoformat 1704153600
       ''2024-01-02T00:00:00+0000'' ''task-1'' 5
     = (Inr \<lparr>p_success = True, p_task_id = ''task-1'', p_task_name = ''Unnamed Task'',
              p_status = ''still_running'', p_state = ''RUNNING'',
              p_task_duration_minutes = 0, p_estimated_wait_time = 2,
              p_should_continue_waiting = True, p_wait_recommendation = ''continue_waiting'',
              p_next_action = Some ''wait_for_task_completion'',
              p_message = ''Task 'Unnamed Task' is running (0.0 min elapsed).'',
              p_details = ''Task is in progress. Check again in 2 seconds.''\<rparr>,
        [\<lparr>req_method = ''GET'', req_url = ''http://tes.example/tasks/task-1?view=MINIMAL'',
          req_headers = [(''Content-Type'', ''application/json''),
                         (''Accept'', ''application/json''),
                         (''User-Agent'', ''poiesis-mcp-client/1.0''),
                         (''Authorization'', ''Bearer asdf'')],
          req_json = None, req_timeout = 60\<rparr>])"
    by code_simp
  show ?thesis using wait_minimal_view_payload [OF e] e
    by (simp add: example_constants_def)
qed

section \<open>The duration of a task\<close>



section \<open>The threshold of the wait operation\<close>

text \<open>
  Claim C10. A call of \<open>wait_for_task_completion\<close> with \<open>max_wait_minutes <= 0\<close> is not
  rejected on that account, and the classification is made with the default 10 in the
  place of the argument. The call behaves in every respect as the call with 10. When the
  task id is not empty, the client can be built and the service answers with a task, the
  call returns the payload built from \<open>_analyze_task_status(state, 0.0, 10)\<close>, with 10 as
  \<open>max_wait_minutes\<close>; for a task that is running, queued or initializing the status is
  \<open>still_running\<close>, where the classification with the argument as it was given would be
  \<open>still_running_timeout\<close>.
\<close>

theorem wait_nonpositive_max_wait:
  assumes "a_max_wait \<le> 0"
  shows "wait_for_task_completion constants net fromisoformat now now_str a_task_id a_max_wait
           = wait_for_task_completion constants net fromisoformat now now_str a_task_id 10
    \<and> (a_task_id \<noteq> [] \<and> strip a_task_id \<noteq> []
        \<and> PoiesisTesClient_init constants None None None = Inr client
        \<and> client_get_task net now_str client (strip a_task_id) (Some ''MINIMAL'')
            = (Inr (Minimal task_data), sent)
       \<longrightarrow>
         wait_for_task_completion constants net fromisoformat now now_str a_task_id a_max_wait
           = (Inr (build_response_payload
                     (analyze_task_status (min_state task_data) 0 10) (strip a_task_id)
                     ''Unnamed Task'' (min_state task_data) 0
                     (calculate_adaptive_interval (TASK_POLL_INTERVAL constants)
                        (min_state task_data) 0)
                     10), sent)
         \<and> (min_state task_data \<in> set [''RUNNING'', ''QUEUED'', ''INITIALIZING''] \<longrightarrow>
               analyze_task_status (min_state task_data) 0 10 = STILL_RUNNING
             \<and> analyze_task_status (min_state task_data) 0 a_max_wait = STILL_RUNNING_TIMEOUT))"
proof -
  have e: "wait_for_task_completion constants net fromisoformat now now_str a_task_id a_max_wait
           = wait_for_task_completion constants net fromisoformat now now_str a_task_id 10"
    using assms by (simp add: wait_for_task_completion_def)
  have r: "wait_for_task_completion constants net fromisoformat now now_str a_task_id a_max_wait
           = (Inr (build_response_payload
                     (analyze_task_status (min_state task_data) 0 10) (strip a_task_id)
                     ''Unnamed Task'' (min_state task_data) 0
                     (calculate_adaptive_interval (TASK_POLL_INTERVAL constants)
                        (min_state task_data) 0)
                     10), sent)"
    if "a_task_id \<noteq> []" "strip a_task_id \<noteq> []"
       "PoiesisTesClient_init constants None None None = Inr client"
       "client_get_task net now_str client (strip a_task_id) (Some ''MINIMAL'')
            = (Inr (Minimal task_data), sent)"
    using that assms
    by (simp add: wait_for_task_completion_def wait_report_def MinimalTesTask_getattr_def
          calculate_task_duration_def truthy_def Let_def)
  have s: "analyze_task_status (min_state task_data) 0 10 = STILL_RUNNING
             \<and> analyze_task_status (min_state task_data) 0 a_max_wait = STILL_RUNNING_TIMEOUT"
    if "min_state task_data \<in> set [''RUNNING'', ''QUEUED'', ''INITIALIZING'']"
    using that assms by (auto simp: analyze_task_status_def)
  from e r s show ?thesis by blast
qed

theorem wait_nonpositive_max_wait_witness:
  "(- 3 :: int) \<le> 0
   \<and> wait_for_task_completion example_constants net_running example_fromisoformat 1704153600
         ''2024-01-02T00:00:00+0000'' ''task-1'' (- 3)
       = (Inr \<lparr>p_success = True, p_task_id = ''task-1'', p_task_name = ''Unnamed Task'',
                p_status = ''still_running'', p_state = ''RUNNING'',
                p_task_duration_minutes = 0, p_estimated_wait_time = 2,
                p_should_continue_waiting = True, p_wait_recommendation = ''continue_waiting'',
                p_next_action = Some ''wait_for_task_completion'',
                p_message = ''Task 'Unnamed Task' is running (0.0 min elapsed).'',
                p_details = ''Task is in progress. Check again in 2 seconds.''\<rparr>,
          [\<lparr>req_method = ''GET'', req_url = ''http://tes.example/tasks/task-1?view=MINIMAL'',
            req_headers = [(''Content-Type'', ''application/json''),
                           (''Accept'', ''application/json''),
                           (''User-Agent'', ''poiesis-mcp-client/1.0''),
                           (''Authorization'', ''Bearer asdf'')],
            req_json = None, req_timeout = 60\<rparr>])
   \<and> analyze_task_status ''RUNNING'' 0 10 = STILL_RUNNING
   \<and> analyze_task_status ''RUNNING'' 0 (- 3) = STILL_RUNNING_TIMEOUT"
proof -
  let ?rq = "\<lparr>req_method = ''GET'', req_url = ''http://tes.example/tasks/task-1?view=MINIMAL'',
            req_headers = [(''Content-Type'', ''application/json''),
                           (''Accept'', ''application/json''),
                           (''User-Agent'', ''poiesis-mcp-client/1.0''),
                           (''Authorization'', ''Bearer asdf'')],
            req_json = None, req_timeout = 60\<rparr>"
  let ?td = "\<lparr>min_id = ''task-1'', min_state = ''RUNNING''\<rparr>"
  have i: "PoiesisTesClient_init example_constants None None None = Inr example_client"
    by code_simp
  have s: "strip ''task-1'' = ''task-1''"
    by code_simp
  have g: "client_get_task net_running ''2024-01-02T00:00:00+0000'' example_client
             (strip ''task-1'') (Some ''MINIMAL'') = (Inr (Minimal ?td), [?rq])"
    by code_simp
  have b: "build_response_payload (analyze_task_status ''RUNNING'' 0 10) ''task-1''
             ''Unnamed Task'' ''RUNNING'' 0
             (calculate_adaptive_interval (TASK_POLL_INTERVAL example_constants) ''RUNNING'' 0) 10
           = \<lparr>p_success = True, p_task_id = ''task-1'', p_task_name = ''Unnamed Task'',
                p_status = ''still_running'', p_state = ''RUNNING'',
                p_task_duration_minutes = 0, p_estimated_wait_time = 2,
                p_should_continue_waiting = True, p_wait_recommendation = ''continue_waiting'',
                p_next_action = Some ''wait_for_task_completion'',
                p_message = ''Task 'Unnamed Task' is running (0.0 min elapsed).'',
                p_details = ''Task is in progress. Check again in 2 seconds.''\<rparr>"
    by code_simp
  have n: "(- 3 :: int) \<le> 0" by simp
  have p1: "''task-1'' \<noteq> []" by simp
  have p2: "strip ''task-1'' \<noteq> []" by (simp add: s)
  note t = wait_nonpositive_max_wait
            [OF n, of example_constants net_running example_fromisoformat 1704153600
               "''2024-01-02T00:00:00+0000''" "''task-1''" example_client ?td "[?rq]"]
  from t p1 p2 i g
  have "wait_for_task_completion example_constants net_running example_fromisoformat 1704153600
         ''2024-01-02T00:00:00+0000'' ''task-1'' (- 3)
       = (Inr (build_response_payload
                     (analyze_task_status (min_state ?td) 0 10) (strip ''task-1'')
                     ''Unnamed Task'' (min_state ?td) 0
                     (calculate_adaptive_interval (TASK_POLL_INTERVAL example_constants)
                        (min_state ?td) 0)
                     10), [?rq])"
    by blast
  then have w: "wait_for_task_completion example_constants net_running example_fromisoformat
         1704153600 ''2024-01-02T00:00:00+0000'' ''task-1'' (- 3)
       = (Inr \<lparr>p_success = True, p_task_id = ''task-1'', p_task_name = ''Unnamed Task'',
                p_status = ''still_running'', p_state = ''RUNNING'',
                p_task_duration_minutes = 0, p_estimated_wait_time = 2,
                p_should_continue_waiting = True, p_wait_recommendation = ''continue_waiting'',
                p_next_action = Some ''wait_for_task_completion'',
                p_message = ''Task 'Unnamed Task' is running (0.0 min elapsed).'',
                p_details = ''Task is in progress. Check again in 2 seconds.''\<rparr>, [?rq])"
    using b s by simp
  have a: "analyze_task_status ''RUNNING'' 0 10 = STILL_RUNNING
     \<and> analyze_task_status ''RUNNING'' 0 (- 3) = STILL_RUNNING_TIMEOUT"
    by (simp add: analyze_task_status_def)
  from n w a show ?thesis by blast
qed

section \<open>The health check\<close>

text \<open>
  Claim C8. \<open>health_check\<close> never raises: whatever the outcome of the request
  \<open>GET /service-info\<close>, it returns a boolean, which is \<open>True\<close> exactly when the request is
  answered with status 200; a failure of the network, a timeout, any other exception and
  any other status give \<open>False\<close>.
\<close>

theorem health_check_never_raises:
  "health_check net self =
     Inr (case net (health_check_request self) of
            Responded r \<Rightarrow> resp_status_code r = 200
          | RaisedConnectionError m \<Rightarrow> False
          | RaisedTimeout m \<Rightarrow> False
          | RaisedOther m \<Rightarrow> False)
   \<and> req_method (health_check_request self) = ''GET''
   \<and> req_url (health_check_request self) = base_url self @ ''/service-info''"
  by (simp add: health_check_def health_check_try_def send_def health_check_request_def
           split: net_outcome.split)

theorem health_check_never_raises_witness:
  "health_check net_down example_client = Inr False
   \<and> health_check net_running example_client = Inr True
   \<and> health_check (\<lambda>rq. Responded \<lparr>resp_status_code = 503, resp_reason = ''Service Unavailable'',
                                    resp_url = req_url rq, resp_text = [], resp_json = None\<rparr>)
        example_client = Inr False"
  using health_check_never_raises [of net_down example_client]
        health_check_never_raises [of net_running example_client]
        health_check_never_raises
          [of "\<lambda>rq. Responded \<lparr>resp_status_code = 503, resp_reason = ''Service Unavailable'',
                                 resp_url = req_url rq, resp_text = [], resp_json = None\<rparr>"
              example_client]
  by (simp add: net_down_def net_running_def)

section \<open>The create operation\<close>

text \<open>
  Claim C6. For every task whose list of executors is empty, \<open>create_task_logic\<close> fails
  with a \<open>ValueError\<close> and sends no request: the client is not built and the network is
  not used.
\<close>

theorem create_task_logic_no_executors:
  "tt_executors task = [] \<Longrightarrow>
     create_task_logic constants net cwd task =
       (Inl (ValueError
          (''Unexpected error creating task ''
           @ squote (if truthy (tt_name task) then the (tt_name task) else ''Unnamed'')
           @ '': Task must have at least one executor. Please provide a list of ''
           @ ''executors with commands to run.'')), [])"
  by (simp add: create_task_logic_def create_task_logic_except_def)

theorem create_task_logic_no_executors_witness:
  "tt_executors (example_task\<lparr>tt_executors := []\<rparr>) = []
   \<and> create_task_logic example_constants net_running ''/app''
        (example_task\<lparr>tt_executors := []\<rparr>) =
       (Inl (ValueError
          (''Unexpected error creating task 'align': Task must have at least one executor. ''
           @ ''Please provide a list of executors with commands to run.'')), [])"
  using create_task_logic_no_executors
          [of "example_task\<lparr>tt_executors := []\<rparr>" example_constants net_running "''/app''"]
  by (simp add: example_task_def truthy_def squote_def)

section \<open>The view of the get operation\<close>

text \<open>
  Claim C5, as the specification states it: every view string whose upper-cased and
  stripped form is not one of \<open>MINIMAL\<close>, \<open>BASIC\<close>, \<open>FULL\<close> makes the get operation fail
  before any request is sent. The empty string is such a view, and for it the operation
  puts \<open>BASIC\<close> in its place (\<open>if view else "BASIC"\<close>), sends the request and returns the
  task.
\<close>

theorem get_task_logic_empty_view_counterexample:
  "strip (upper []) \<notin> set [''MINIMAL'', ''BASIC'', ''FULL'']
   \<and> (\<exists>res. get_task_logic example_constants net_running ''/app''
                ''2024-01-02T00:00:00+0000'' ''task-1'' []
        = (Inr res,
           [\<lparr>req_method = ''GET'', req_url = ''http://tes.example/tasks/task-1?view=BASIC'',
             req_headers = [(''Content-Type'', ''application/json''),
                            (''Accept'', ''application/json''),
                            (''User-Agent'', ''poiesis-mcp-client/1.0''),
                            (''Authorization'', ''Bearer asdf'')],
             req_json = None, req_timeout = 60\<rparr>]))"
proof -
  have a: "strip (upper []) \<notin> set [''MINIMAL'', ''BASIC'', ''FULL'']"
    by (simp add: strip_def upper_def lstrip_def rstrip_def)
  have "snd (get_task_logic example_constants net_running ''/app''
                ''2024-01-02T00:00:00+0000'' ''task-1'' [])
        = [\<lparr>req_method = ''GET'', req_url = ''http://tes.example/tasks/task-1?view=BASIC'',
             req_headers = [(''Content-Type'', ''application/json''),
                            (''Accept'', ''application/json''),
                            (''User-Agent'', ''poiesis-mcp-client/1.0''),
                            (''Authorization'', ''Bearer asdf'')],
             req_json = None, req_timeout = 60\<rparr>]"
    by code_simp
  moreover have "isl (fst (get_task_logic example_constants net_running ''/app''
                ''2024-01-02T00:00:00+0000'' ''task-1'' [])) = False"
    by code_simp
  ultimately show ?thesis using a
    by (cases "get_task_logic example_constants net_running ''/app''
                ''2024-01-02T00:00:00+0000'' ''task-1'' []";
        cases "fst (get_task_logic example_constants net_running ''/app''
                ''2024-01-02T00:00:00+0000'' ''task-1'' [])")
       auto
qed

text \<open>
  Claim C5, amended. For every view string that is not empty and whose upper-cased and
  stripped form is not one of \<open>MINIMAL\<close>, \<open>BASIC\<close>, \<open>FULL\<close>, the get operation fails with
  a \<open>ValueError\<close> and sends no request. The client's \<open>get_task\<close> raises \<open>TESClientError\<close>
  and sends no request for every view string, taken as it is, that is not one of the
  three.
\<close>

theorem get_task_invalid_view_fails_fast:
  "(a_view \<noteq> [] \<and> strip (upper a_view) \<notin> set [''MINIMAL'', ''BASIC'', ''FULL'']
      \<longrightarrow> (\<exists>m. get_task_logic constants net cwd now_str a_task_id a_view
                  = (Inl (ValueError m), [])))
   \<and> (view \<notin> set [''MINIMAL'', ''BASIC'', ''FULL'']
      \<longrightarrow> client_get_task net now_str self task_id (Some view)
            = (Inl (TESClientError (''Invalid view '' @ squote view
                                    @ ''. Must be one of: MINIMAL, BASIC, FULL'')), []))"
proof -
  have f: "\<exists>m. get_task_logic constants net cwd now_str a_task_id a_view
                  = (Inl (ValueError m), [])"
    if "a_view \<noteq> []" and "strip (upper a_view) \<notin> set [''MINIMAL'', ''BASIC'', ''FULL'']"
    using that
    by (simp add: get_task_logic_def get_task_logic_except_def Let_def)
  have c: "client_get_task net now_str self task_id (Some view)
            = (Inl (TESClientError (''Invalid view '' @ squote view
                                    @ ''. Must be one of: MINIMAL, BASIC, FULL'')), [])"
    if "view \<notin> set [''MINIMAL'', ''BASIC'', ''FULL'']"
    using that by (simp add: client_get_task_def Let_def)
  from f c show ?thesis by blast
qed

theorem get_task_invalid_view_fails_fast_witness:
  "''bogus'' \<noteq> [] \<and> strip (upper ''bogus'') \<notin> set [''MINIMAL'', ''BASIC'', ''FULL'']
   \<and> (\<exists>m. get_task_logic example_constants net_running ''/app'' ''2024-01-02T00:00:00+0000''
              ''task-1'' ''bogus'' = (Inl (ValueError m), []))
   \<and> ''basic'' \<notin> set [''MINIMAL'', ''BASIC'', ''FULL'']
   \<and> client_get_task net_running ''2024-01-02T00:00:00+0000'' example_client ''task-1''
        (Some ''basic'')
      = (Inl (TESClientError ''Invalid view 'basic'. Must be one of: MINIMAL, BASIC, FULL''), [])"
proof -
  have a: "strip (upper ''bogus'') \<notin> set [''MINIMAL'', ''BASIC'', ''FULL'']"
    by code_simp
  show ?thesis
    using a get_task_invalid_view_fails_fast
              [of "''bogus''" example_constants net_running "''/app''"
                  "''2024-01-02T00:00:00+0000''" "''task-1''" "''basic''" example_client
                  "''task-1''"]
    by (simp add: squote_def)
qed

section \<open>Validation of the configuration\<close>

text \<open>What the validation does, for every configuration and network: a missing auth
  token puts a message on the list of errors, and a list that is not empty fails the
  startup validation, whatever the service answers. When a token is set, the list is empty
  exactly when the URL is set, the integers are in range and the backoff factor does not
  compare \<open><= 0\<close> (which holds for a positive number, for \<open>inf\<close> and for \<open>nan\<close>). When the
  list is empty the startup validation succeeds exactly when the health check does.\<close>

lemma validate_config_missing_token:
  "\<not> truthy (REQUEST_TOKEN c) \<Longrightarrow>
     ''TES_TOKEN environment variable should be set for secure authentication''
       \<in> set (validate_config c)"
  by (simp add: validate_config_def)

lemma validate_environment_fails_on_errors:
  "validate_config c \<noteq> [] \<Longrightarrow> validate_environment c net = (False, validate_config c)"
  by (simp add: validate_environment_def Let_def)

lemma validate_environment_missing_token_fails:
  "\<not> truthy (REQUEST_TOKEN c) \<Longrightarrow> fst (validate_environment c net) = False"
  using validate_config_missing_token [of c] validate_environment_fails_on_errors [of c net]
  by (cases "validate_config c") auto

lemma validate_config_empty_iff:
  "truthy (REQUEST_TOKEN c) \<Longrightarrow>
     (validate_config c = [] \<longleftrightarrow>
        truthy (TES_URL c) \<and> 0 < REQUEST_TIMEOUT c \<and> 0 \<le> MAX_RETRIES c
        \<and> \<not> float_le_zero (BACKOFF_FACTOR c) \<and> 1 \<le> MCP_PORT c \<and> MCP_PORT c \<le> 65535
        \<and> 0 < TASK_POLL_INTERVAL c \<and> 0 < TASK_POLL_MAX_ATTEMPTS c)"
  by (auto simp: validate_config_def)

lemma health_check_returns: "\<exists>b. health_check net client = Inr b"
  by (cases "health_check_try net client") (auto simp: health_check_def)

lemma validate_environment_health_check:
  assumes v: "validate_config c = []"
  shows "\<exists>client. PoiesisTesClient_init c None None None = Inr client
           \<and> fst (validate_environment c net) = (health_check net client = Inr True)"
proof -
  have u: "truthy (TES_URL c)"
    using v by (auto simp: validate_config_def split: if_splits)
  obtain client where i: "PoiesisTesClient_init c None None None = Inr client"
    using u by (simp add: PoiesisTesClient_init_def Let_def truthy_def)
  obtain b where hb: "health_check net client = Inr b" using health_check_returns by blast
  have "fst (validate_environment c net) = b"
    using v i hb u by (simp add: validate_environment_def Let_def)
  with i hb show ?thesis by auto
qed

lemma validate_environment_examples:
  "validate_environment example_constants net_running = (True, [])
   \<and> validate_environment example_constants net_down
       = (False, [''TES service at http://tes.example/ is not accessible.''])
   \<and> validate_environment (example_constants\<lparr>MCP_PORT := 70000\<rparr>) net_running
       = (False, [''MCP_PORT must be a valid port number (1-65535)''])
   \<and> validate_config (example_constants\<lparr>BACKOFF_FACTOR := NaN\<rparr>) = []"
  by (simp add: example_constants_def truthy_def validate_environment_def validate_config_def
        PoiesisTesClient_init_def health_check_def health_check_try_def send_def net_down_def
        net_running_def Let_def)

text \<open>
  Claim C7 says that a missing auth token only warns and does not fail the startup. The
  client treats it so: without a token \<open>PoiesisTesClient\<close> is built, logs a warning and
  sends its requests without the \<open>Authorization\<close> header. \<open>validate_config\<close> does not: it
  puts its message about the token, which says that the token should be set, on the list
  of errors, and \<open>validate_environment\<close> fails on a list that is not empty. For the example
  configuration without a token, with the URL set, every number in range and a service
  that answers the health check, the startup validation fails with that one message; with
  the default token it succeeds.
\<close>

theorem validate_environment_missing_token:
  "REQUEST_TOKEN (example_constants\<lparr>REQUEST_TOKEN := None\<rparr>) = None
   \<and> truthy (TES_URL (example_constants\<lparr>REQUEST_TOKEN := None\<rparr>))
   \<and> validate_config (example_constants\<lparr>REQUEST_TOKEN := None\<rparr>)
       = [''TES_TOKEN environment variable should be set for secure authentication'']
   \<and> validate_environment (example_constants\<lparr>REQUEST_TOKEN := None\<rparr>) net_running
       = (False, [''TES_TOKEN environment variable should be set for secure authentication''])
   \<and> PoiesisTesClient_init (example_constants\<lparr>REQUEST_TOKEN := None\<rparr>) None None None
       = Inr (example_client\<lparr>auth_token := None\<rparr>)
   \<and> session_headers (example_client\<lparr>auth_token := None\<rparr>)
       = [(''Content-Type'', ''application/json''), (''Accept'', ''application/json''),
          (''User-Agent'', ''poiesis-mcp-client/1.0'')]
   \<and> health_check net_running (example_client\<lparr>auth_token := None\<rparr>) = Inr True
   \<and> REQUEST_TOKEN example_constants = Some ''asdf''
   \<and> validate_environment example_constants net_running = (True, [])"
  by (simp add: example_constants_def example_client_def truthy_def validate_environment_def
        validate_config_def PoiesisTesClient_init_def session_headers_def rstrip_slash_def
        health_check_def health_check_try_def send_def net_running_def Let_def)

section \<open>Round trip of a task\<close>

text \<open>The path that \<open>validate_path\<close> returns is a fixed point of the serializer and of
  the validator: \<open>normpath\<close> of an absolute path is its root followed by components
  without a slash, none of them empty, \<open>.\<close> or \<open>..\<close>.\<close>

lemma split_slash_nonempty: "split_slash s \<noteq> []"
  by (induction s) (auto split: list.splits)

lemma split_slash_no_slash: "x \<in> set (split_slash s) \<Longrightarrow> CHR ''/'' \<notin> set x"
  by (induction s arbitrary: x) (auto split: if_splits list.splits)

lemma split_slash_plain: "CHR ''/'' \<notin> set x \<Longrightarrow> split_slash x = [x]"
  by (induction x) auto

lemma split_slash_append:
  "CHR ''/'' \<notin> set x \<Longrightarrow> split_slash (x @ CHR ''/'' # s) = x # split_slash s"
  by (induction x) (auto simp: split_slash_nonempty split: list.splits)

lemma split_slash_join:
  "list_all good_component cs \<Longrightarrow> cs \<noteq> [] \<Longrightarrow> split_slash (join ''/'' cs) = cs"
proof (induction "''/''" cs rule: join.induct)
  case 1
  then show ?case by simp
next
  case (2 x)
  then show ?case by (simp add: good_component_def split_slash_plain)
next
  case (3 x y ys)
  then show ?case by (simp add: good_component_def split_slash_append)
qed

lemma normpath_step_good:
  "0 < n \<Longrightarrow> list_all good_component acc \<Longrightarrow> CHR ''/'' \<notin> set c
     \<Longrightarrow> list_all good_component (normpath_step n acc c)"
  by (cases acc rule: rev_cases)
     (auto simp: normpath_step_def good_component_def list_all_iff butlast_append
           dest: in_set_butlastD)

lemma normpath_foldl_good:
  "0 < n \<Longrightarrow> list_all good_component acc \<Longrightarrow> \<forall>c \<in> set xs. CHR ''/'' \<notin> set c
     \<Longrightarrow> list_all good_component (foldl (normpath_step n) acc xs)"
  by (induction xs arbitrary: acc) (auto simp: normpath_step_good)

lemma normpath_foldl_fixed:
  "list_all good_component acc \<Longrightarrow> list_all good_component xs
     \<Longrightarrow> foldl (normpath_step n) acc xs = acc @ xs"
  by (induction xs arbitrary: acc) (auto simp: normpath_step_def good_component_def)


lemma join_no_leading_slash:
  "list_all good_component cs \<Longrightarrow> join ''/'' cs = [] \<or> hd (join ''/'' cs) \<noteq> CHR ''/''"
proof (induction "''/''" cs rule: join.induct)
  case 1
  then show ?case by simp
next
  case (2 x)
  then show ?case by (cases x) (auto simp: good_component_def)
next
  case (3 x y ys)
  then show ?case by (cases x) (auto simp: good_component_def)
qed

lemma split_slash_rooted:
  assumes "list_all good_component cs"
  shows "filter (\<lambda>x. x \<noteq> [] \<and> x \<noteq> ''.'') (split_slash (join ''/'' cs)) = cs"
proof (cases cs)
  case Nil
  then show ?thesis by simp
next
  case (Cons c cs')
  then have "split_slash (join ''/'' cs) = cs"
    using assms split_slash_join by blast
  moreover have "filter (\<lambda>x. x \<noteq> [] \<and> x \<noteq> ''.'') cs = cs"
    using assms by (induction cs) (auto simp: good_component_def)
  ultimately show ?thesis by simp
qed

lemma rooted_path_facts:
  assumes g: "list_all good_component cs" and n: "n = 1 \<or> n = 2"
  defines "q \<equiv> replicate n CHR ''/'' @ join ''/'' cs"
  shows "path_root q = replicate n CHR ''/''" and "path_tail q = cs"
    and "Path_absolute cwd q = q" and "normpath q = q"
proof -
  let ?j = "join ''/'' cs"
  have j: "?j = [] \<or> hd ?j \<noteq> CHR ''/''" using g by (rule join_no_leading_slash)
  have f: "filter (\<lambda>x. x \<noteq> [] \<and> x \<noteq> ''.'') (split_slash ?j) = cs"
    using g by (rule split_slash_rooted)
  show r: "path_root q = replicate n CHR ''/''"
    using n j by (cases ?j) (auto simp: q_def path_root_def startswith_def numeral_2_eq_2)
  show t: "path_tail q = cs"
    using n f by (auto simp: q_def path_tail_def numeral_2_eq_2)
  have ne: "path_root q \<noteq> []" using r n by auto
  show "Path_absolute cwd q = q"
    using ne r t n by (auto simp: Path_absolute_def path_str_def Let_def q_def)
  have s: "foldl (normpath_step n) [] (split_slash q) = cs"
  proof -
    have "foldl (normpath_step n) [] (split_slash ?j) = cs"
    proof (cases cs)
      case Nil
      then show ?thesis by (simp add: normpath_step_def)
    next
      case (Cons c cs')
      then have "split_slash ?j = cs" using g split_slash_join by blast
      then show ?thesis using normpath_foldl_fixed [of "[]" cs n] g by simp
    qed
    then show ?thesis
      using n by (auto simp: q_def numeral_2_eq_2 normpath_step_def)
  qed
  have i: "(if startswith q ''/'' then
              (if startswith q ''//'' \<and> \<not> startswith q ''///'' then 2 else 1) else 0) = n"
    using n j by (cases ?j) (auto simp: q_def startswith_def numeral_2_eq_2)
  have qne: "q \<noteq> []" using n by (auto simp: q_def)
  show "normpath q = q"
    unfolding normpath_def Let_def i s using qne n by (auto simp: q_def)
qed

lemma normpath_rooted_form:
  assumes "startswith p ''/''"
  shows "\<exists>n cs. (n = 1 \<or> n = 2) \<and> list_all good_component cs
           \<and> normpath p = replicate n CHR ''/'' @ join ''/'' cs"
proof -
  define n :: nat where "n = (if startswith p ''//'' \<and> \<not> startswith p ''///'' then 2 else 1)"
  define cs where "cs = foldl (normpath_step n) [] (split_slash p)"
  have n: "n = 1 \<or> n = 2" by (simp add: n_def)
  then have "0 < n" by auto
  then have g: "list_all good_component cs"
    unfolding cs_def using split_slash_no_slash by (intro normpath_foldl_good) auto
  have pne: "p \<noteq> []" using assms by (auto simp: startswith_def)
  have "normpath p = replicate n CHR ''/'' @ join ''/'' cs"
    using assms pne n unfolding normpath_def Let_def cs_def n_def by auto
  with n g show ?thesis by blast
qed

lemma validate_path_fixed:
  assumes "validate_path p = Some q"
  shows "serialize_path cwd q = q" and "validate_path q = Some q"
proof -
  from assms have sp: "startswith p ''/''" and q: "q = normpath p"
    and l: "\<not> length (path_parts q) < 3"
    by (auto simp: validate_path_def Let_def split: if_splits)
  from normpath_rooted_form [OF sp] obtain n cs where
    n: "n = 1 \<or> n = 2" and g: "list_all good_component cs"
    and f: "q = replicate n CHR ''/'' @ join ''/'' cs"
    using q by auto
  show "serialize_path cwd q = q"
    unfolding serialize_path_def f using rooted_path_facts(3) [OF g n] .
  have nq: "normpath q = q" unfolding f using rooted_path_facts(4) [OF g n] .
  have sq: "startswith q ''/''" using n by (auto simp: f startswith_def)
  show "validate_path q = Some q"
    using sq nq l by (simp add: validate_path_def Let_def)
qed


lemma TesOutput_round_trip:
  assumes "validate_path p0 = Some (outp_path out)" and "outp_type out \<noteq> None"
  shows "TesOutput_model_validate (TesOutput_model_dump cwd out) = Some out"
proof -
  have s: "serialize_path cwd (outp_path out) = outp_path out"
    and v: "validate_path (outp_path out) = Some (outp_path out)"
    using validate_path_fixed [OF assms(1)] by auto
  obtain t where t: "outp_type out = Some t" using assms(2) by auto
  have ft: "TesFileType_of_value (serialize_type t) = Some t"
    by (cases t) (simp_all add: TesFileType_of_value_def serialize_type_def)
  show ?thesis
    using s v t ft
    by (cases "outp_name out"; cases "outp_description out"; cases "outp_path_prefix out")
       (simp_all add: TesOutput_model_validate_def TesOutput_model_dump_def dump_opt_def
          required_def optional_def v_str_def v_TesFileType_def)
qed

lemma TesInput_round_trip:
  assumes "inp_type i \<noteq> None"
  shows "TesInput_model_validate (TesInput_model_dump cwd i)
           = Some (i\<lparr>inp_path := serialize_path cwd (inp_path i)\<rparr>)"
proof -
  obtain t where t: "inp_type i = Some t" using assms by auto
  have ft: "TesFileType_of_value (serialize_type t) = Some t"
    by (cases t) (simp_all add: TesFileType_of_value_def serialize_type_def)
  show ?thesis
    using t ft
    by (cases "inp_name i"; cases "inp_description i"; cases "inp_url i";
        cases "inp_content i"; cases "inp_streamable i")
       (simp_all add: TesInput_model_validate_def TesInput_model_dump_def dump_opt_def
          required_def optional_def v_str_def v_bool_def v_TesFileType_def)
qed

text \<open>
  Claim C9 says that serializing a valid task and parsing it back gives the same values
  of the populated fields. For an output this holds (lemma \<open>TesOutput_round_trip\<close>):
  \<open>validate_path\<close> has stored the normalized path, which the serializer leaves as it is.
  \<open>TesInput\<close> accepts any string as \<open>path\<close>, it has no validator, and its serializer
  writes the absolute form of the path (lemma \<open>TesInput_round_trip\<close>): the round trip of
  the example task, whose input has the relative path \<open>data/file1\<close>, succeeds and gives a
  task whose input has the path \<open>/app/data/file1\<close>.
\<close>

theorem TesTask_round_trip_changes_input_path:
  "TesTask_model_validate ''2024-01-02T00:00:00+0000''
       (TesTask_model_dump ''/app'' example_task)
     = Some (example_task\<lparr>tt_inputs := Some [example_input\<lparr>inp_path := ''/app/data/file1''\<rparr>]\<rparr>)
   \<and> example_task\<lparr>tt_inputs := Some [example_input\<lparr>inp_path := ''/app/data/file1''\<rparr>]\<rparr>
       \<noteq> example_task"
proof -
  have "TesTask_model_validate ''2024-01-02T00:00:00+0000''
       (TesTask_model_dump ''/app'' example_task)
     = Some (example_task\<lparr>tt_inputs := Some [example_input\<lparr>inp_path := ''/app/data/file1''\<rparr>]\<rparr>)"
    by code_simp
  moreover have "example_task\<lparr>tt_inputs := Some [example_input\<lparr>inp_path := ''/app/data/file1''\<rparr>]\<rparr>
       \<noteq> example_task"
    by (simp add: example_task_def example_input_def)
  ultimately show ?thesis by blast
qed

end
